theory Spec2Isabelle
  imports Main "HOL-Library.Signed_Division" "HOL-Library.AList"
begin

section \<open>Errors, records and log lines\<close>

text \<open>
  The broker client (confluent-kafka-go), the context package, zap and encoding/json are
  libraries outside the repository. What they return is an input of the model; what the
  repository's code does with it is modelled from the code.

  A \<open>kafka.Error\<close> carries a code. The consumer compares it with \<open>kafka.ErrTimedOut\<close>
  only, so the other codes stay anonymous.
\<close>

datatype ErrorCode = ErrTimedOut | ErrOther nat

text \<open>\<open>ctx.Err()\<close> once \<open>ctx.Done()\<close> is closed.\<close>

datatype ctx_err = Canceled | DeadlineExceeded

text \<open>
  Go \<open>error\<close> values. \<open>Errorf p e\<close> is \<open>fmt.Errorf(p + ": %w", e)\<close>; \<open>ErrorsNew\<close> is any
  other error value (a handler may return whatever it likes). \<open>SyntaxError\<close> and
  \<open>UnmarshalTypeError value type\<close> are the two errors of encoding/json.
\<close>

datatype go_error =
    KafkaError ErrorCode
  | ContextError ctx_err
  | ErrorsNew string
  | Errorf string go_error
  | SyntaxError
  | UnmarshalTypeError string string

text \<open>\<open>errors.Is\<close> along the \<open>%w\<close> chain.\<close>

fun errors_Is :: "go_error \<Rightarrow> go_error \<Rightarrow> bool" where
  "errors_Is (Errorf p e) target = (Errorf p e = target \<or> errors_Is e target)"
| "errors_Is e target = (e = target)"

text \<open>\<open>kafka.Message\<close>: the log coordinates, the key, the value and the headers.\<close>

record Message =
  Topic :: string
  Partition :: int
  Offset :: int
  Key :: string
  Value :: string
  Headers :: "(string \<times> string) list"

datatype level = DebugLevel | InfoLevel | WarnLevel | ErrorLevel

text \<open>
  zap fields. \<open>ZOffset k off\<close> is \<open>zap.String(k, off.String())\<close>: the rendering of a
  \<open>kafka.Offset\<close> is the client library's.
\<close>

datatype field =
    ZError go_error
  | ZString string string
  | ZStrings string "string list"
  | ZInt32 string int
  | ZByteString string string
  | ZOffset string int

text \<open>
  What a component does to the outside, in the order it does it: a log line, a handler
  that ran on a record and returned, a \<open>CommitMessage\<close> call with what it returned, a
  \<open>Produce\<close> call.
\<close>

datatype event =
    Logged level string "field list"
  | Handled Message "go_error option"
  | Commit Message "go_error option"
  | Produce Message

section \<open>Consumer\<close>

text \<open>
  \<open>MessageHandler\<close>: \<open>func(ctx, msg) error\<close>. A handler is code of the application; it may
  read and change the world \<open>'w\<close> (the context it is given, with its 30 second deadline,
  is part of that world). \<open>None\<close> is a nil error.
\<close>

type_synonym 'w MessageHandler = "Message \<Rightarrow> 'w \<Rightarrow> go_error option \<times> 'w"

record 'w Consumer =
  handlers :: "string \<rightharpoonup> 'w MessageHandler"

text \<open>\<open>RegisterHandler\<close>: \<open>c.handlers[topic] = handler\<close>, then a log line.\<close>

definition RegisterHandler ::
  "'w Consumer \<Rightarrow> string \<Rightarrow> 'w MessageHandler \<Rightarrow> 'w Consumer \<times> event list" where
  "RegisterHandler c topic handler =
     (c\<lparr>handlers := (handlers c)(topic \<mapsto> handler)\<rparr>,
      [Logged InfoLevel ''Registered handler for topic'' [ZString ''topic'' topic]])"

text \<open>
  \<open>Subscribe\<close>. The argument \<open>SubscribeTopics\<close> is the broker client's answer to
  \<open>c.consumer.SubscribeTopics(topics, nil)\<close>.
\<close>

definition Subscribe ::
  "(string list \<Rightarrow> go_error option) \<Rightarrow> string list \<Rightarrow> go_error option \<times> event list" where
  "Subscribe SubscribeTopics topics =
     (case SubscribeTopics topics of
        Some err \<Rightarrow> (Some (Errorf ''failed to subscribe to topics'' err), [])
      | None \<Rightarrow> (None, [Logged InfoLevel ''Subscribed to topics'' [ZStrings ''topics'' topics]]))"

text \<open>The debug line of \<open>processMessage\<close> and the error line of \<open>Start\<close> for a record.\<close>

definition received :: "Message \<Rightarrow> event" where
  "received msg = Logged DebugLevel ''Received message''
     [ZString ''topic'' (Topic msg), ZInt32 ''partition'' (Partition msg),
      ZOffset ''offset'' (Offset msg), ZByteString ''key'' (Key msg)]"

definition processing_failed :: "Message \<Rightarrow> go_error \<Rightarrow> event" where
  "processing_failed msg err = Logged ErrorLevel ''Error processing message''
     [ZError err, ZString ''topic'' (Topic msg), ZInt32 ''partition'' (Partition msg),
      ZOffset ''offset'' (Offset msg)]"

definition commit_failed :: "Message \<Rightarrow> go_error \<Rightarrow> event" where
  "commit_failed msg err = Logged ErrorLevel ''Error committing message''
     [ZError err, ZString ''topic'' (Topic msg)]"

text \<open>
  \<open>processMessage\<close>: the debug line, the lookup in \<open>c.handlers\<close>, the handler. It returns
  the error, the world the handler left and what happened.
\<close>

definition processMessage ::
  "'w Consumer \<Rightarrow> Message \<Rightarrow> 'w \<Rightarrow> go_error option \<times> 'w \<times> event list" where
  "processMessage c msg w =
     (let topic = Topic msg in
      case handlers c topic of
        None \<Rightarrow>
          (None, w,
           [received msg,
            Logged WarnLevel ''No handler registered for topic'' [ZString ''topic'' topic]])
      | Some handler \<Rightarrow>
          (case handler msg w of
             (Some err, w') \<Rightarrow>
               (Some (Errorf ''handler error'' err), w', [received msg, Handled msg (Some err)])
           | (None, w') \<Rightarrow> (None, w', [received msg, Handled msg None])))"

text \<open>
  One turn of the loop of \<open>Start\<close> sees one of three things: \<open>ctx.Done()\<close> is ready in the
  \<open>select\<close>; \<open>ReadMessage\<close> returns an error (a \<open>kafka.Error\<close>, the loop reads its code);
  \<open>ReadMessage\<close> returns a record. With a record comes what \<open>CommitMessage\<close> answers for
  it, should the loop call it.
\<close>

datatype tick =
    CtxDone ctx_err
  | ReadFails ErrorCode
  | ReadReturns Message "go_error option"

definition emit :: "event list \<Rightarrow> 'r \<times> 'w \<times> event list \<Rightarrow> 'r \<times> 'w \<times> event list" where
  "emit evs res = (case res of (r, w, evs') \<Rightarrow> (r, w, evs @ evs'))"

text \<open>
  The loop of \<open>Start\<close> over the turns it is given. The loop has no exit but the
  \<open>return ctx.Err()\<close>: the result is \<open>Some\<close> of what \<open>Start\<close> returned, or \<open>None\<close> when the
  loop is still running after the last turn.
\<close>

fun Start_loop :: "'w Consumer \<Rightarrow> tick list \<Rightarrow> 'w \<Rightarrow> go_error option \<times> 'w \<times> event list" where
  "Start_loop c [] w = (None, w, [])"
| "Start_loop c (CtxDone e # ts) w =
     (Some (ContextError e), w, [Logged InfoLevel ''Consumer context cancelled, stopping...'' []])"
| "Start_loop c (ReadFails code # ts) w =
     (if code = ErrTimedOut then Start_loop c ts w
      else emit [Logged ErrorLevel ''Error reading message'' [ZError (KafkaError code)]]
             (Start_loop c ts w))"
| "Start_loop c (ReadReturns msg answer # ts) w =
     (case processMessage c msg w of
        (Some err, w', evs) \<Rightarrow> emit (evs @ [processing_failed msg err]) (Start_loop c ts w')
      | (None, w', evs) \<Rightarrow>
          emit (evs @ Commit msg answer #
                  (case answer of None \<Rightarrow> [] | Some err \<Rightarrow> [commit_failed msg err]))
            (Start_loop c ts w'))"

definition Start :: "'w Consumer \<Rightarrow> tick list \<Rightarrow> 'w \<Rightarrow> go_error option \<times> 'w \<times> event list" where
  "Start c ts w = emit [Logged InfoLevel ''Starting Kafka consumer...'' []] (Start_loop c ts w)"

subsection \<open>What the claims about the loop speak of\<close>

text \<open>The cancellation the loop meets first, if any.\<close>

fun first_done :: "tick list \<Rightarrow> ctx_err option" where
  "first_done [] = None"
| "first_done (CtxDone e # ts) = Some e"
| "first_done (t # ts) = first_done ts"


text \<open>
  The committed offsets, by topic and partition. \<open>CommitMessage(m)\<close> commits the offset
  after the record's, the next record to read: a call that the client accepted moves the
  cursor of the record's partition to \<open>Offset m + 1\<close>, whatever it was; one that failed
  moves nothing. (A \<open>kafka.Offset\<close> is an int64; the offset of a record in a log is below
  its maximum.) \<open>committed cm evs\<close> is the cursor after \<open>evs\<close>, from \<open>cm\<close> before.
\<close>

definition commit_step :: "(string \<times> int \<rightharpoonup> int) \<Rightarrow> event \<Rightarrow> (string \<times> int \<rightharpoonup> int)" where
  "commit_step cm e =
     (case e of Commit m None \<Rightarrow> cm((Topic m, Partition m) \<mapsto> Offset m + 1) | _ \<Rightarrow> cm)"

definition committed :: "(string \<times> int \<rightharpoonup> int) \<Rightarrow> event list \<Rightarrow> (string \<times> int \<rightharpoonup> int)" where
  "committed cm evs = foldl commit_step cm evs"


definition registered :: "'w Consumer \<Rightarrow> string \<Rightarrow> bool" where
  "registered c topic = (handlers c topic \<noteq> None)"





section \<open>Producer\<close>

text \<open>
  What one call of \<open>Publish\<close> meets: either \<open>Produce\<close> returns an error, or it takes
  the message and the \<open>select\<close> ends: with the delivery report (a message and its
  \<open>TopicPartition.Error\<close>), with \<open>ctx.Done()\<close>, or never. With it, the clock for the
  header.
\<close>

datatype select_end =
    Delivery Message "go_error option"
  | Done ctx_err
  | Never

datatype produce_end =
    ProduceFails go_error
  | Waits select_end

record publish_env =
  now_RFC3339 :: string
  run :: produce_end

definition PartitionAny :: int where
  "PartitionAny = - 1"

text \<open>
  \<open>Publish\<close>. The result is \<open>Some\<close> of the returned error (\<open>Some None\<close> is a nil error), or
  \<open>None\<close> when the call never returns.
\<close>

definition Publish ::
  "publish_env \<Rightarrow> string \<Rightarrow> string \<Rightarrow> string \<Rightarrow> go_error option option \<times> event list" where
  "Publish env topic key val =
     (let msg = \<lparr>Topic = topic, Partition = PartitionAny, Offset = 0, Key = key, Value = val,
                 Headers = [(''timestamp'', now_RFC3339 env)]\<rparr>
      in case run env of
           ProduceFails err \<Rightarrow>
             (Some (Some (Errorf ''failed to produce message'' err)),
              [Produce msg,
               Logged ErrorLevel ''Failed to produce message'' [ZError err, ZString ''topic'' topic]])
         | Waits (Delivery m (Some err)) \<Rightarrow>
             (Some (Some (Errorf ''delivery failed'' err)),
              [Produce msg,
               Logged ErrorLevel ''Message delivery failed'' [ZError err, ZString ''topic'' topic]])
         | Waits (Delivery m None) \<Rightarrow>
             (Some None,
              [Produce msg,
               Logged DebugLevel ''Message delivered successfully''
                 [ZString ''topic'' (Topic m), ZInt32 ''partition'' (Partition m),
                  ZOffset ''offset'' (Offset m)]])
         | Waits (Done e) \<Rightarrow> (Some (Some (ContextError e)), [Produce msg])
         | Waits Never \<Rightarrow> (None, [Produce msg]))"

text \<open>The \<open>Produce\<close> calls among the events.\<close>

fun produce_calls :: "event list \<Rightarrow> Message list" where
  "produce_calls [] = []"
| "produce_calls (Produce m # evs) = m # produce_calls evs"
| "produce_calls (e # evs) = produce_calls evs"

section \<open>Event ids\<close>

text \<open>
  The clock: \<open>now k\<close> is what the \<open>k\<close>-th call of \<open>time.Now()\<close> in the process reads, in
  nanoseconds (\<open>UnixNano\<close>). A function that reads the clock takes the number of the next
  reading and returns the number after its last.
\<close>

definition letters :: string where
  "letters = ''abcdefghijklmnopqrstuvwxyzABCDEFGHIJKLMNOPQRSTUVWXYZ0123456789''"

text \<open>
  \<open>randomString\<close>: each byte is \<open>letters[time.Now().UnixNano() % 62]\<close>. Go's \<open>%\<close> truncates
  (\<open>smod\<close>); a negative index panics (\<open>None\<close>).
\<close>

fun randomString :: "(nat \<Rightarrow> int) \<Rightarrow> nat \<Rightarrow> nat \<Rightarrow> string option \<times> nat" where
  "randomString now k 0 = (Some [], k)"
| "randomString now k (Suc n) =
     (let i = now k smod int (length letters) in
      if i < 0 then (None, Suc k)
      else (case randomString now (Suc k) n of
              (None, k') \<Rightarrow> (None, k')
            | (Some s, k') \<Rightarrow> (Some (letters ! nat i # s), k')))"

text \<open>
  \<open>generateEventID\<close>. \<open>Format t\<close> is \<open>Format("20060102150405")\<close> of the instant \<open>t\<close>, the
  standard library's.
\<close>

definition generateEventID ::
  "(int \<Rightarrow> string) \<Rightarrow> (nat \<Rightarrow> int) \<Rightarrow> nat \<Rightarrow> string option \<times> nat" where
  "generateEventID Format now k =
     (case randomString now (Suc k) 8 of
        (None, k') \<Rightarrow> (None, k')
      | (Some s, k') \<Rightarrow> (Some (Format (now k) @ ''-'' @ s), k'))"

section \<open>Event envelope\<close>

text \<open>
  encoding/json is the standard library's. Its reading of bytes as a JSON value is a
  parameter of the model (\<open>scan\<close>); how a JSON value is stored into an \<open>Event\<close> follows
  the struct declaration (the field tags and the field types) by the library's rules.
  A number keeps its literal.
\<close>

datatype json =
    JNull
  | JBool bool
  | JNumber string
  | JString string
  | JArray "json list"
  | JObject "(string \<times> json) list"

text \<open>What an \<open>interface{}\<close> holds after a decode; \<open>'f\<close> is float64.\<close>

datatype 'f any =
    AnyNil
  | AnyBool bool
  | AnyFloat64 'f
  | AnyString string
  | AnySlice "'f any list"
  | AnyMap "(string \<times> 'f any) list"

text \<open>
  The library: \<open>scan\<close> is \<open>None\<close> on a syntax error; \<open>ParseFloat\<close> is
  \<open>strconv.ParseFloat(s, 64)\<close>, \<open>None\<close> out of range; \<open>ParseTime\<close> is what
  \<open>Time.UnmarshalJSON\<close> reads in a string; \<open>ZeroTime\<close> is the zero \<open>time.Time\<close>; \<open>foldName\<close>
  folds the case of a key.
\<close>

record ('t, 'f) encoding_json =
  scan :: "string \<Rightarrow> json option"
  ParseFloat :: "string \<Rightarrow> 'f option"
  ParseTime :: "string \<Rightarrow> 't option"
  ZeroTime :: 't
  foldName :: "string \<Rightarrow> string"

text \<open>
  \<open>Event\<close>; \<open>EventType\<close> is a string. \<open>Data\<close> is an \<open>interface{}\<close>: it holds a payload struct
  when the event is made (\<open>'d\<close> is the payload's type), and a generic value, \<open>'f any\<close>,
  after a decode.
\<close>

record ('t, 'd) Event =
  ID :: string
  Type :: string
  Timestamp :: 't
  Data :: 'd

definition zero_Event :: "('t, 'f) encoding_json \<Rightarrow> ('t, 'f any) Event" where
  "zero_Event lib = \<lparr>ID = [], Type = [], Timestamp = ZeroTime lib, Data = AnyNil\<rparr>"

text \<open>The first error is the one the decoder keeps.\<close>

fun first_error :: "go_error option list \<Rightarrow> go_error option" where
  "first_error [] = None"
| "first_error (Some e # es) = Some e"
| "first_error (None # es) = first_error es"

text \<open>How an \<open>UnmarshalTypeError\<close> names the JSON value it met.\<close>

definition kind_of :: "json \<Rightarrow> string" where
  "kind_of v =
     (case v of
        JNull \<Rightarrow> ''null'' | JBool b \<Rightarrow> ''bool'' | JNumber s \<Rightarrow> ''number''
      | JString s \<Rightarrow> ''string'' | JArray vs \<Rightarrow> ''array'' | JObject kvs \<Rightarrow> ''object'')"

text \<open>
  A JSON value into an \<open>interface{}\<close>: any shape goes. A number that is no float64 is
  an error the decoder keeps, and nil in the value; a later key of an object replaces an
  earlier equal one.
\<close>

fun generic :: "(string \<Rightarrow> 'f option) \<Rightarrow> json \<Rightarrow> go_error option \<times> 'f any" where
  "generic pf JNull = (None, AnyNil)"
| "generic pf (JBool b) = (None, AnyBool b)"
| "generic pf (JNumber s) =
     (case pf s of
        None \<Rightarrow> (Some (UnmarshalTypeError (''number '' @ s) ''float64''), AnyNil)
      | Some f \<Rightarrow> (None, AnyFloat64 f))"
| "generic pf (JString s) = (None, AnyString s)"
| "generic pf (JArray vs) =
     (first_error (map (\<lambda>v. fst (generic pf v)) vs), AnySlice (map (\<lambda>v. snd (generic pf v)) vs))"
| "generic pf (JObject kvs) =
     (first_error (map (\<lambda>kv. fst (generic pf (snd kv))) kvs),
      AnyMap (foldl (\<lambda>m kv. AList.update (fst kv) (snd (generic pf (snd kv))) m) [] kvs))"

text \<open>The fields of \<open>Event\<close> and their tags.\<close>

datatype Event_field = Field_ID | Field_Type | Field_Timestamp | Field_Data

definition Event_fields :: "(string \<times> Event_field) list" where
  "Event_fields =
     [(''id'', Field_ID), (''type'', Field_Type), (''timestamp'', Field_Timestamp),
      (''data'', Field_Data)]"

text \<open>The field of a key: the exact tag, else the tag that folds to the same.\<close>

definition field_of :: "('t, 'f) encoding_json \<Rightarrow> string \<Rightarrow> Event_field option" where
  "field_of lib key =
     (case map_of Event_fields key of
        Some f \<Rightarrow> Some f
      | None \<Rightarrow> map_of (map (\<lambda>(tag, f). (foldName lib tag, f)) Event_fields) (foldName lib key))"

text \<open>
  The decoder's state over an object: the error that stops it at once (that of
  \<open>Time.UnmarshalJSON\<close>), the first error it keeps while it goes on, the struct so far.
\<close>

record ('t, 'f) decode_state =
  stopped :: "go_error option"
  saved :: "go_error option"
  target :: "('t, 'f any) Event"

definition save :: "go_error \<Rightarrow> ('t, 'f) decode_state \<Rightarrow> ('t, 'f) decode_state" where
  "save err st = (case saved st of None \<Rightarrow> st\<lparr>saved := Some err\<rparr> | Some e \<Rightarrow> st)"

text \<open>One value into one field. \<open>null\<close> leaves a string or a time as it is.\<close>

definition store ::
  "('t, 'f) encoding_json \<Rightarrow> Event_field \<Rightarrow> json \<Rightarrow> ('t, 'f) decode_state \<Rightarrow> ('t, 'f) decode_state"
  where
  "store lib f v st =
     (case f of
        Field_ID \<Rightarrow>
          (case v of
             JString s \<Rightarrow> st\<lparr>target := (target st)\<lparr>ID := s\<rparr>\<rparr>
           | JNull \<Rightarrow> st
           | _ \<Rightarrow> save (UnmarshalTypeError (kind_of v) ''Event.id of type string'') st)
      | Field_Type \<Rightarrow>
          (case v of
             JString s \<Rightarrow> st\<lparr>target := (target st)\<lparr>Type := s\<rparr>\<rparr>
           | JNull \<Rightarrow> st
           | _ \<Rightarrow> save (UnmarshalTypeError (kind_of v) ''Event.type of type events.EventType'') st)
      | Field_Timestamp \<Rightarrow>
          (case v of
             JNull \<Rightarrow> st
           | JString s \<Rightarrow>
               (case ParseTime lib s of
                  Some t \<Rightarrow> st\<lparr>target := (target st)\<lparr>Timestamp := t\<rparr>\<rparr>
                | None \<Rightarrow> st\<lparr>stopped := Some (ErrorsNew ''parsing time'')\<rparr>)
           | _ \<Rightarrow>
               st\<lparr>stopped := Some (ErrorsNew ''Time.UnmarshalJSON: input is not a JSON string'')\<rparr>)
      | Field_Data \<Rightarrow>
          (case v of
             JNumber s \<Rightarrow>
               (case ParseFloat lib s of
                  Some x \<Rightarrow> st\<lparr>target := (target st)\<lparr>Data := AnyFloat64 x\<rparr>\<rparr>
                | None \<Rightarrow> save (UnmarshalTypeError (''number '' @ s) ''float64'') st)
           | _ \<Rightarrow>
               (case generic (ParseFloat lib) v of
                  (None, a) \<Rightarrow> st\<lparr>target := (target st)\<lparr>Data := a\<rparr>\<rparr>
                | (Some err, a) \<Rightarrow> save err (st\<lparr>target := (target st)\<lparr>Data := a\<rparr>\<rparr>))))"

text \<open>The keys of an object in turn; a key that is no field is skipped.\<close>

fun decode_object ::
  "('t, 'f) encoding_json \<Rightarrow> (string \<times> json) list \<Rightarrow> ('t, 'f) decode_state \<Rightarrow> ('t, 'f) decode_state"
  where
  "decode_object lib [] st = st"
| "decode_object lib ((key, v) # kvs) st =
     (case stopped st of
        Some err \<Rightarrow> st
      | None \<Rightarrow>
          decode_object lib kvs
            (case field_of lib key of None \<Rightarrow> st | Some f \<Rightarrow> store lib f v st))"

text \<open>
  \<open>json.Unmarshal(data, &event)\<close>: the error and the struct it leaves. A syntax error
  touches nothing; \<open>null\<close> is no error and touches nothing; a value that is no object is
  an error.
\<close>

definition json_Unmarshal ::
  "('t, 'f) encoding_json \<Rightarrow> string \<Rightarrow> ('t, 'f any) Event \<Rightarrow>
   go_error option \<times> ('t, 'f any) Event" where
  "json_Unmarshal lib data event =
     (case scan lib data of
        None \<Rightarrow> (Some SyntaxError, event)
      | Some JNull \<Rightarrow> (None, event)
      | Some (JObject kvs) \<Rightarrow>
          (let st = decode_object lib kvs \<lparr>stopped = None, saved = None, target = event\<rparr>
           in (case stopped st of Some err \<Rightarrow> Some err | None \<Rightarrow> saved st, target st))
      | Some v \<Rightarrow> (Some (UnmarshalTypeError (kind_of v) ''events.Event''), event))"

text \<open>\<open>UnmarshalEvent\<close>: \<open>nil, err\<close> on an error, the event otherwise.\<close>

definition UnmarshalEvent ::
  "('t, 'f) encoding_json \<Rightarrow> string \<Rightarrow> go_error + ('t, 'f any) Event" where
  "UnmarshalEvent lib data =
     (case json_Unmarshal lib data (zero_Event lib) of
        (Some err, event) \<Rightarrow> Inl err
      | (None, event) \<Rightarrow> Inr event)"

text \<open>Every number of a JSON value is a float64.\<close>

fun numbers_fit :: "(string \<Rightarrow> 'f option) \<Rightarrow> json \<Rightarrow> bool" where
  "numbers_fit pf (JNumber s) = (pf s \<noteq> None)"
| "numbers_fit pf (JArray vs) = list_all (numbers_fit pf) vs"
| "numbers_fit pf (JObject kvs) = list_all (\<lambda>kv. numbers_fit pf (snd kv)) kvs"
| "numbers_fit pf v = True"

text \<open>
  A value the decoder refuses for a field: anything but a string or \<open>null\<close> for \<open>id\<close> and
  \<open>type\<close>; anything but \<open>null\<close> or a string that reads as a time for \<open>timestamp\<close>; a
  number that is no float64 somewhere in \<open>data\<close>.
\<close>

definition mistyped :: "('t, 'f) encoding_json \<Rightarrow> Event_field \<Rightarrow> json \<Rightarrow> bool" where
  "mistyped lib f v =
     (case f of
        Field_ID \<Rightarrow> (case v of JString s \<Rightarrow> False | JNull \<Rightarrow> False | _ \<Rightarrow> True)
      | Field_Type \<Rightarrow> (case v of JString s \<Rightarrow> False | JNull \<Rightarrow> False | _ \<Rightarrow> True)
      | Field_Timestamp \<Rightarrow>
          (case v of JNull \<Rightarrow> False | JString s \<Rightarrow> ParseTime lib s = None | _ \<Rightarrow> True)
      | Field_Data \<Rightarrow> \<not> numbers_fit (ParseFloat lib) v)"

definition failed :: "('t, 'f) decode_state \<Rightarrow> bool" where
  "failed st = (stopped st \<noteq> None \<or> saved st \<noteq> None)"

section \<open>Payloads and the second decode\<close>

text \<open>
  The payloads a handler of the repository decodes: \<open>OrderCreatedEvent\<close>, with the \<open>Order\<close>
  and \<open>OrderItem\<close> of the models, and \<open>InventoryReservedEvent\<close>. An \<open>int\<close> is an integer, a
  float64 is \<open>'f\<close>, a \<open>time.Time\<close> is \<open>'t\<close>. \<open>Order.ID\<close> is \<open>Order_ID\<close> here, and the fields of
  \<open>InventoryReservation\<close> and the items of \<open>InventoryReservedEvent\<close> carry a prefix, the
  names being taken.
\<close>

record 'f OrderItem =
  ProductID :: string
  Quantity :: int
  Price :: 'f

record ('t, 'f) Order =
  Order_ID :: string
  CustomerID :: string
  Items :: "'f OrderItem list"
  TotalPrice :: 'f
  Status :: string
  CreatedAt :: 't
  UpdatedAt :: 't

record ('t, 'f) OrderCreatedEvent =
  Order :: "('t, 'f) Order"

record InventoryReservation =
  Reservation_ProductID :: string
  Reservation_Quantity :: int

record 't InventoryReservedEvent =
  OrderID :: string
  Reserved_Items :: "InventoryReservation list"
  ReservedAt :: 't

text \<open>What \<open>Data\<close> holds when a service makes an event.\<close>

datatype ('t, 'f) payload =
    OrderCreated "('t, 'f) OrderCreatedEvent"
  | InventoryReserved "'t InventoryReservedEvent"

text \<open>
  The writing side of encoding/json, a parameter as the reading side is: \<open>print\<close> is the
  text of a JSON value; \<open>FormatFloat\<close> is the literal of a float64, \<open>None\<close> for an infinity
  or a NaN; \<open>FormatTime\<close> is what \<open>Time.MarshalJSON\<close> writes in a string, \<open>None\<close> for a year
  out of range; \<open>FormatInt\<close> is the literal of an int, and \<open>ParseInt\<close> reads a number
  literal as an int, \<open>None\<close> when it is none.
\<close>

record ('t, 'f) json_text =
  print :: "json \<Rightarrow> string"
  FormatFloat :: "'f \<Rightarrow> string option"
  FormatTime :: "'t \<Rightarrow> string option"
  FormatInt :: "int \<Rightarrow> string"
  ParseInt :: "string \<Rightarrow> int option"

text \<open>\<open>json.Marshal\<close> of a struct: the fields in the order of the declaration, under their tags.\<close>

definition encode_OrderItem :: "('t, 'f) json_text \<Rightarrow> 'f OrderItem \<Rightarrow> json option" where
  "encode_OrderItem tx item =
     (case FormatFloat tx (Price item) of
        None \<Rightarrow> None
      | Some price \<Rightarrow>
          Some (JObject [(''product_id'', JString (ProductID item)),
                         (''quantity'', JNumber (FormatInt tx (Quantity item))),
                         (''price'', JNumber price)]))"

definition encode_Order :: "('t, 'f) json_text \<Rightarrow> ('t, 'f) Order \<Rightarrow> json option" where
  "encode_Order tx this =
     (case those (map (encode_OrderItem tx) (Items this)) of
        None \<Rightarrow> None
      | Some items \<Rightarrow>
     (case FormatFloat tx (TotalPrice this) of
        None \<Rightarrow> None
      | Some total_price \<Rightarrow>
     (case FormatTime tx (CreatedAt this) of
        None \<Rightarrow> None
      | Some created \<Rightarrow>
     (case FormatTime tx (UpdatedAt this) of
        None \<Rightarrow> None
      | Some updated \<Rightarrow>
          Some (JObject [(''id'', JString (Order_ID this)),
                         (''customer_id'', JString (CustomerID this)),
                         (''items'', JArray items),
                         (''total_price'', JNumber total_price),
                         (''status'', JString (Status this)),
                         (''created_at'', JString created),
                         (''updated_at'', JString updated)])))))"

definition encode_OrderCreatedEvent ::
  "('t, 'f) json_text \<Rightarrow> ('t, 'f) OrderCreatedEvent \<Rightarrow> json option" where
  "encode_OrderCreatedEvent tx created =
     (case encode_Order tx (Order created) of
        None \<Rightarrow> None
      | Some this \<Rightarrow> Some (JObject [(''order'', this)]))"

definition encode_InventoryReservation :: "('t, 'f) json_text \<Rightarrow> InventoryReservation \<Rightarrow> json" where
  "encode_InventoryReservation tx r =
     JObject [(''product_id'', JString (Reservation_ProductID r)),
              (''quantity'', JNumber (FormatInt tx (Reservation_Quantity r)))]"

definition encode_InventoryReservedEvent ::
  "('t, 'f) json_text \<Rightarrow> 't InventoryReservedEvent \<Rightarrow> json option" where
  "encode_InventoryReservedEvent tx reserved =
     (case FormatTime tx (ReservedAt reserved) of
        None \<Rightarrow> None
      | Some at \<Rightarrow>
          Some (JObject [(''order_id'', JString (OrderID reserved)),
                         (''items'', JArray (map (encode_InventoryReservation tx)
                                               (Reserved_Items reserved))),
                         (''reserved_at'', JString at)]))"

definition encode_payload :: "('t, 'f) json_text \<Rightarrow> ('t, 'f) payload \<Rightarrow> json option" where
  "encode_payload tx p =
     (case p of
        OrderCreated created \<Rightarrow> encode_OrderCreatedEvent tx created
      | InventoryReserved reserved \<Rightarrow> encode_InventoryReservedEvent tx reserved)"

definition encode_Event ::
  "('t, 'f) json_text \<Rightarrow> ('t, ('t, 'f) payload) Event \<Rightarrow> json option" where
  "encode_Event tx e =
     (case FormatTime tx (Timestamp e) of
        None \<Rightarrow> None
      | Some ts \<Rightarrow>
          (case encode_payload tx (Data e) of
             None \<Rightarrow> None
           | Some d \<Rightarrow>
               Some (JObject [(''id'', JString (ID e)), (''type'', JString (Type e)),
                              (''timestamp'', JString ts), (''data'', d)])))"

text \<open>\<open>Marshal\<close>: the bytes, or the error of \<open>json.Marshal\<close>.\<close>

definition Marshal ::
  "('t, 'f) json_text \<Rightarrow> ('t, ('t, 'f) payload) Event \<Rightarrow> go_error + string" where
  "Marshal tx e =
     (case encode_Event tx e of
        None \<Rightarrow> Inl (ErrorsNew ''json: unsupported value'')
      | Some v \<Rightarrow> Inr (print tx v))"

text \<open>
  \<open>json.Marshal\<close> of what a decode left in an \<open>interface{}\<close>: a map is written with its keys
  sorted, byte by byte; a float64 by its literal.
\<close>

fun bytes_le :: "string \<Rightarrow> string \<Rightarrow> bool" where
  "bytes_le [] ys = True"
| "bytes_le (x # xs) [] = False"
| "bytes_le (x # xs) (y # ys) =
     ((of_char x :: nat) < of_char y \<or> (x = y \<and> bytes_le xs ys))"

fun insert_key :: "string \<times> 'a \<Rightarrow> (string \<times> 'a) list \<Rightarrow> (string \<times> 'a) list" where
  "insert_key kv [] = [kv]"
| "insert_key kv (p # ps) =
     (if bytes_le (fst kv) (fst p) then kv # p # ps else p # insert_key kv ps)"

definition sort_keys :: "(string \<times> 'a) list \<Rightarrow> (string \<times> 'a) list" where
  "sort_keys kvs = foldr insert_key kvs []"

fun marshal_any :: "('t, 'f) json_text \<Rightarrow> 'f any \<Rightarrow> json option" where
  "marshal_any tx AnyNil = Some JNull"
| "marshal_any tx (AnyBool b) = Some (JBool b)"
| "marshal_any tx (AnyFloat64 x) = map_option JNumber (FormatFloat tx x)"
| "marshal_any tx (AnyString s) = Some (JString s)"
| "marshal_any tx (AnySlice xs) = map_option JArray (those (map (marshal_any tx) xs))"
| "marshal_any tx (AnyMap kvs) =
     map_option JObject
       (those (map (\<lambda>kv. map_option (Pair (fst kv)) (snd kv))
                 (sort_keys (map (\<lambda>kv. (fst kv, marshal_any tx (snd kv))) kvs))))"

text \<open>
  \<open>json.Unmarshal\<close> into a struct, by the library's rules, as for \<open>Event\<close> above: an error
  that stops the decode (\<open>stop\<close>), the first type error, which the decoder keeps while it
  goes on (\<open>kept\<close>), and the struct as filled so far. A key is looked up among the tags,
  exactly and then with its case folded; an unknown key is skipped; \<open>null\<close> leaves a field
  as it is. A type error names the value and the Go type.
\<close>

record 'a filling =
  stop :: "go_error option"
  kept :: "go_error option"
  struct :: 'a

definition keep :: "go_error option \<Rightarrow> 'a filling \<Rightarrow> 'a filling" where
  "keep e st = (case kept st of None \<Rightarrow> st\<lparr>kept := e\<rparr> | Some e' \<Rightarrow> st)"

definition string_of :: "string \<Rightarrow> json \<Rightarrow> string \<Rightarrow> go_error option \<times> string" where
  "string_of ty v cur =
     (case v of
        JString s \<Rightarrow> (None, s)
      | JNull \<Rightarrow> (None, cur)
      | _ \<Rightarrow> (Some (UnmarshalTypeError (kind_of v) ty), cur))"

definition int_of_json ::
  "('t, 'f) json_text \<Rightarrow> string \<Rightarrow> json \<Rightarrow> int \<Rightarrow> go_error option \<times> int" where
  "int_of_json tx ty v cur =
     (case v of
        JNumber s \<Rightarrow>
          (case ParseInt tx s of
             Some n \<Rightarrow> (None, n)
           | None \<Rightarrow> (Some (UnmarshalTypeError (''number '' @ s) ty), cur))
      | JNull \<Rightarrow> (None, cur)
      | _ \<Rightarrow> (Some (UnmarshalTypeError (kind_of v) ty), cur))"

definition float_of_json ::
  "('t, 'f) encoding_json \<Rightarrow> string \<Rightarrow> json \<Rightarrow> 'f \<Rightarrow> go_error option \<times> 'f" where
  "float_of_json lib ty v cur =
     (case v of
        JNumber s \<Rightarrow>
          (case ParseFloat lib s of
             Some x \<Rightarrow> (None, x)
           | None \<Rightarrow> (Some (UnmarshalTypeError (''number '' @ s) ty), cur))
      | JNull \<Rightarrow> (None, cur)
      | _ \<Rightarrow> (Some (UnmarshalTypeError (kind_of v) ty), cur))"

definition time_of_json :: "('t, 'f) encoding_json \<Rightarrow> json \<Rightarrow> 't \<Rightarrow> go_error + 't" where
  "time_of_json lib v cur =
     (case v of
        JNull \<Rightarrow> Inr cur
      | JString s \<Rightarrow>
          (case ParseTime lib s of
             Some t \<Rightarrow> Inr t
           | None \<Rightarrow> Inl (ErrorsNew ''parsing time''))
      | _ \<Rightarrow> Inl (ErrorsNew ''Time.UnmarshalJSON: input is not a JSON string''))"

definition put :: "go_error option \<times> 'b \<Rightarrow> ('b \<Rightarrow> 'a \<Rightarrow> 'a) \<Rightarrow> 'a filling \<Rightarrow> 'a filling" where
  "put r upd st = keep (fst r) (st\<lparr>struct := upd (snd r) (struct st)\<rparr>)"

definition put_time :: "go_error + 't \<Rightarrow> ('t \<Rightarrow> 'a \<Rightarrow> 'a) \<Rightarrow> 'a filling \<Rightarrow> 'a filling" where
  "put_time r upd st =
     (case r of
        Inl err \<Rightarrow> st\<lparr>stop := Some err\<rparr>
      | Inr t \<Rightarrow> st\<lparr>struct := upd t (struct st)\<rparr>)"

text \<open>The decode of a field that is itself a struct or a slice.\<close>

definition within ::
  "('a \<Rightarrow> 'b) \<Rightarrow> ('b \<Rightarrow> 'a \<Rightarrow> 'a) \<Rightarrow> ('b filling \<Rightarrow> 'b filling) \<Rightarrow> 'a filling \<Rightarrow> 'a filling" where
  "within sel upd sub st =
     (let r = sub \<lparr>stop = None, kept = kept st, struct = sel (struct st)\<rparr>
      in \<lparr>stop = stop r, kept = kept r, struct = upd (struct r) (struct st)\<rparr>)"

definition tag_of ::
  "('t, 'f) encoding_json \<Rightarrow> (string \<times> 'fld) list \<Rightarrow> string \<Rightarrow> 'fld option" where
  "tag_of lib table key =
     (case map_of table key of
        Some f \<Rightarrow> Some f
      | None \<Rightarrow> map_of (map (\<lambda>(tag, f). (foldName lib tag, f)) table) (foldName lib key))"

fun fill_object ::
  "(string \<Rightarrow> 'fld option) \<Rightarrow> ('fld \<Rightarrow> json \<Rightarrow> 'a filling \<Rightarrow> 'a filling) \<Rightarrow>
   (string \<times> json) list \<Rightarrow> 'a filling \<Rightarrow> 'a filling" where
  "fill_object look sto [] st = st"
| "fill_object look sto ((key, v) # kvs) st =
     (case stop st of
        Some err \<Rightarrow> st
      | None \<Rightarrow>
          fill_object look sto kvs (case look key of None \<Rightarrow> st | Some f \<Rightarrow> sto f v st))"

definition fill_struct ::
  "string \<Rightarrow> (string \<Rightarrow> 'fld option) \<Rightarrow> ('fld \<Rightarrow> json \<Rightarrow> 'a filling \<Rightarrow> 'a filling) \<Rightarrow>
   json \<Rightarrow> 'a filling \<Rightarrow> 'a filling" where
  "fill_struct ty look sto v st =
     (case v of
        JNull \<Rightarrow> st
      | JObject kvs \<Rightarrow> fill_object look sto kvs st
      | _ \<Rightarrow> keep (Some (UnmarshalTypeError (kind_of v) ty)) st)"

text \<open>
  A slice is emptied and filled element by element; an element starts from the one the
  slice held at its place, or from the zero value.
\<close>

fun fill_elems ::
  "(json \<Rightarrow> 'e filling \<Rightarrow> 'e filling) \<Rightarrow> 'e \<Rightarrow> json list \<Rightarrow> 'e list \<Rightarrow>
   'e list filling \<Rightarrow> 'e list filling" where
  "fill_elems one zero [] cur st = st"
| "fill_elems one zero (v # vs) cur st =
     (case stop st of
        Some err \<Rightarrow> st
      | None \<Rightarrow>
          (let r = one v \<lparr>stop = None, kept = kept st,
                          struct = (case cur of [] \<Rightarrow> zero | c # cs \<Rightarrow> c)\<rparr>
           in fill_elems one zero vs (tl cur)
                \<lparr>stop = stop r, kept = kept r, struct = struct st @ [struct r]\<rparr>))"

definition fill_slice ::
  "string \<Rightarrow> (json \<Rightarrow> 'e filling \<Rightarrow> 'e filling) \<Rightarrow> 'e \<Rightarrow> json \<Rightarrow>
   'e list filling \<Rightarrow> 'e list filling" where
  "fill_slice ty one zero v st =
     (case v of
        JNull \<Rightarrow> st\<lparr>struct := []\<rparr>
      | JArray vs \<Rightarrow> fill_elems one zero vs (struct st) (st\<lparr>struct := []\<rparr>)
      | _ \<Rightarrow> keep (Some (UnmarshalTypeError (kind_of v) ty)) st)"

text \<open>\<open>json.Unmarshal\<close> of bytes into a struct that is filled by \<open>fill\<close>.\<close>

definition json_Unmarshal_into ::
  "('t, 'f) encoding_json \<Rightarrow> (json \<Rightarrow> 'a filling \<Rightarrow> 'a filling) \<Rightarrow> string \<Rightarrow> 'a \<Rightarrow>
   go_error option \<times> 'a" where
  "json_Unmarshal_into lib fill data this =
     (case scan lib data of
        None \<Rightarrow> (Some SyntaxError, this)
      | Some v \<Rightarrow>
          (let st = fill v \<lparr>stop = None, kept = None, struct = this\<rparr>
           in (case stop st of Some err \<Rightarrow> Some err | None \<Rightarrow> kept st, struct st)))"

subsection \<open>The structs\<close>

datatype OrderItem_field = Field_ProductID | Field_Quantity | Field_Price

definition OrderItem_fields :: "(string \<times> OrderItem_field) list" where
  "OrderItem_fields =
     [(''product_id'', Field_ProductID), (''quantity'', Field_Quantity), (''price'', Field_Price)]"

definition zero_OrderItem :: "('f :: zero) OrderItem" where
  "zero_OrderItem = \<lparr>ProductID = [], Quantity = 0, Price = 0\<rparr>"

definition store_OrderItem ::
  "('t, 'f) encoding_json \<Rightarrow> ('t, 'f) json_text \<Rightarrow> OrderItem_field \<Rightarrow> json \<Rightarrow>
   'f OrderItem filling \<Rightarrow> 'f OrderItem filling" where
  "store_OrderItem lib tx f v st =
     (case f of
        Field_ProductID \<Rightarrow>
          put (string_of ''OrderItem.product_id of type string'' v (ProductID (struct st)))
            (\<lambda>x item. item\<lparr>ProductID := x\<rparr>) st
      | Field_Quantity \<Rightarrow>
          put (int_of_json tx ''OrderItem.quantity of type int'' v (Quantity (struct st)))
            (\<lambda>x item. item\<lparr>Quantity := x\<rparr>) st
      | Field_Price \<Rightarrow>
          put (float_of_json lib ''OrderItem.price of type float64'' v (Price (struct st)))
            (\<lambda>x item. item\<lparr>Price := x\<rparr>) st)"

definition fill_OrderItem ::
  "('t, 'f) encoding_json \<Rightarrow> ('t, 'f) json_text \<Rightarrow> json \<Rightarrow>
   'f OrderItem filling \<Rightarrow> 'f OrderItem filling" where
  "fill_OrderItem lib tx =
     fill_struct ''models.OrderItem'' (tag_of lib OrderItem_fields) (store_OrderItem lib tx)"

datatype Order_field =
    Field_Order_ID | Field_CustomerID | Field_Items | Field_TotalPrice | Field_Status
  | Field_CreatedAt | Field_UpdatedAt

definition Order_fields :: "(string \<times> Order_field) list" where
  "Order_fields =
     [(''id'', Field_Order_ID), (''customer_id'', Field_CustomerID), (''items'', Field_Items),
      (''total_price'', Field_TotalPrice), (''status'', Field_Status),
      (''created_at'', Field_CreatedAt), (''updated_at'', Field_UpdatedAt)]"

definition zero_Order :: "('t, 'f) encoding_json \<Rightarrow> ('t, 'f :: zero) Order" where
  "zero_Order lib =
     \<lparr>Order_ID = [], CustomerID = [], Items = [], TotalPrice = 0, Status = [],
      CreatedAt = ZeroTime lib, UpdatedAt = ZeroTime lib\<rparr>"

definition store_Order ::
  "('t, 'f :: zero) encoding_json \<Rightarrow> ('t, 'f) json_text \<Rightarrow> Order_field \<Rightarrow> json \<Rightarrow>
   ('t, 'f) Order filling \<Rightarrow> ('t, 'f) Order filling" where
  "store_Order lib tx f v st =
     (case f of
        Field_Order_ID \<Rightarrow>
          put (string_of ''Order.id of type string'' v (Order_ID (struct st)))
            (\<lambda>x this. this\<lparr>Order_ID := x\<rparr>) st
      | Field_CustomerID \<Rightarrow>
          put (string_of ''Order.customer_id of type string'' v (CustomerID (struct st)))
            (\<lambda>x this. this\<lparr>CustomerID := x\<rparr>) st
      | Field_Items \<Rightarrow>
          within Items (\<lambda>x this. this\<lparr>Items := x\<rparr>)
            (fill_slice ''Order.items of type []models.OrderItem'' (fill_OrderItem lib tx)
               zero_OrderItem v) st
      | Field_TotalPrice \<Rightarrow>
          put (float_of_json lib ''Order.total_price of type float64'' v (TotalPrice (struct st)))
            (\<lambda>x this. this\<lparr>TotalPrice := x\<rparr>) st
      | Field_Status \<Rightarrow>
          put (string_of ''Order.status of type models.OrderStatus'' v (Status (struct st)))
            (\<lambda>x this. this\<lparr>Status := x\<rparr>) st
      | Field_CreatedAt \<Rightarrow>
          put_time (time_of_json lib v (CreatedAt (struct st)))
            (\<lambda>x this. this\<lparr>CreatedAt := x\<rparr>) st
      | Field_UpdatedAt \<Rightarrow>
          put_time (time_of_json lib v (UpdatedAt (struct st)))
            (\<lambda>x this. this\<lparr>UpdatedAt := x\<rparr>) st)"

datatype OrderCreatedEvent_field = Field_Order

definition OrderCreatedEvent_fields :: "(string \<times> OrderCreatedEvent_field) list" where
  "OrderCreatedEvent_fields = [(''order'', Field_Order)]"

definition zero_OrderCreatedEvent ::
  "('t, 'f) encoding_json \<Rightarrow> ('t, 'f :: zero) OrderCreatedEvent" where
  "zero_OrderCreatedEvent lib = \<lparr>Order = zero_Order lib\<rparr>"

definition store_OrderCreatedEvent ::
  "('t, 'f :: zero) encoding_json \<Rightarrow> ('t, 'f) json_text \<Rightarrow> OrderCreatedEvent_field \<Rightarrow> json \<Rightarrow>
   ('t, 'f) OrderCreatedEvent filling \<Rightarrow> ('t, 'f) OrderCreatedEvent filling" where
  "store_OrderCreatedEvent lib tx f v st =
     (case f of
        Field_Order \<Rightarrow>
          within Order (\<lambda>x created. created\<lparr>Order := x\<rparr>)
            (fill_struct ''OrderCreatedEvent.order of type models.Order''
               (tag_of lib Order_fields) (store_Order lib tx) v) st)"

definition fill_OrderCreatedEvent ::
  "('t, 'f :: zero) encoding_json \<Rightarrow> ('t, 'f) json_text \<Rightarrow> json \<Rightarrow>
   ('t, 'f) OrderCreatedEvent filling \<Rightarrow> ('t, 'f) OrderCreatedEvent filling" where
  "fill_OrderCreatedEvent lib tx =
     fill_struct ''events.OrderCreatedEvent'' (tag_of lib OrderCreatedEvent_fields)
       (store_OrderCreatedEvent lib tx)"

datatype InventoryReservation_field = Field_Reservation_ProductID | Field_Reservation_Quantity

definition InventoryReservation_fields :: "(string \<times> InventoryReservation_field) list" where
  "InventoryReservation_fields =
     [(''product_id'', Field_Reservation_ProductID), (''quantity'', Field_Reservation_Quantity)]"

definition zero_InventoryReservation :: InventoryReservation where
  "zero_InventoryReservation = \<lparr>Reservation_ProductID = [], Reservation_Quantity = 0\<rparr>"

definition store_InventoryReservation ::
  "('t, 'f) json_text \<Rightarrow> InventoryReservation_field \<Rightarrow> json \<Rightarrow>
   InventoryReservation filling \<Rightarrow> InventoryReservation filling" where
  "store_InventoryReservation tx f v st =
     (case f of
        Field_Reservation_ProductID \<Rightarrow>
          put (string_of ''InventoryReservation.product_id of type string'' v
                 (Reservation_ProductID (struct st)))
            (\<lambda>x r. r\<lparr>Reservation_ProductID := x\<rparr>) st
      | Field_Reservation_Quantity \<Rightarrow>
          put (int_of_json tx ''InventoryReservation.quantity of type int'' v
                 (Reservation_Quantity (struct st)))
            (\<lambda>x r. r\<lparr>Reservation_Quantity := x\<rparr>) st)"

definition fill_InventoryReservation ::
  "('t, 'f) encoding_json \<Rightarrow> ('t, 'f) json_text \<Rightarrow> json \<Rightarrow>
   InventoryReservation filling \<Rightarrow> InventoryReservation filling" where
  "fill_InventoryReservation lib tx =
     fill_struct ''events.InventoryReservation'' (tag_of lib InventoryReservation_fields)
       (store_InventoryReservation tx)"

datatype InventoryReservedEvent_field = Field_OrderID | Field_Reserved_Items | Field_ReservedAt

definition InventoryReservedEvent_fields :: "(string \<times> InventoryReservedEvent_field) list" where
  "InventoryReservedEvent_fields =
     [(''order_id'', Field_OrderID), (''items'', Field_Reserved_Items),
      (''reserved_at'', Field_ReservedAt)]"

definition zero_InventoryReservedEvent ::
  "('t, 'f) encoding_json \<Rightarrow> 't InventoryReservedEvent" where
  "zero_InventoryReservedEvent lib =
     \<lparr>OrderID = [], Reserved_Items = [], ReservedAt = ZeroTime lib\<rparr>"

definition store_InventoryReservedEvent ::
  "('t, 'f) encoding_json \<Rightarrow> ('t, 'f) json_text \<Rightarrow> InventoryReservedEvent_field \<Rightarrow> json \<Rightarrow>
   't InventoryReservedEvent filling \<Rightarrow> 't InventoryReservedEvent filling" where
  "store_InventoryReservedEvent lib tx f v st =
     (case f of
        Field_OrderID \<Rightarrow>
          put (string_of ''InventoryReservedEvent.order_id of type string'' v (OrderID (struct st)))
            (\<lambda>x reserved. reserved\<lparr>OrderID := x\<rparr>) st
      | Field_Reserved_Items \<Rightarrow>
          within Reserved_Items (\<lambda>x reserved. reserved\<lparr>Reserved_Items := x\<rparr>)
            (fill_slice ''InventoryReservedEvent.items of type []events.InventoryReservation''
               (fill_InventoryReservation lib tx) zero_InventoryReservation v) st
      | Field_ReservedAt \<Rightarrow>
          put_time (time_of_json lib v (ReservedAt (struct st)))
            (\<lambda>x reserved. reserved\<lparr>ReservedAt := x\<rparr>) st)"

definition fill_InventoryReservedEvent ::
  "('t, 'f) encoding_json \<Rightarrow> ('t, 'f) json_text \<Rightarrow> json \<Rightarrow>
   't InventoryReservedEvent filling \<Rightarrow> 't InventoryReservedEvent filling" where
  "fill_InventoryReservedEvent lib tx =
     fill_struct ''events.InventoryReservedEvent'' (tag_of lib InventoryReservedEvent_fields)
       (store_InventoryReservedEvent lib tx)"

subsection \<open>The handlers' decode\<close>

text \<open>
  \<open>HandleOrderCreated\<close> and \<open>handleInventoryReserved\<close>, up to the payload: the bytes of the
  record are decoded into an \<open>Event\<close>, its \<open>Data\<close> is written again by \<open>json.Marshal\<close>, and
  that text is decoded into the payload struct. The first error is returned.
  \<open>decode_OrderCreated\<close> and \<open>decode_InventoryReserved\<close> are the last two steps.
\<close>

definition decode_OrderCreated ::
  "('t, 'f :: zero) encoding_json \<Rightarrow> ('t, 'f) json_text \<Rightarrow> 'f any \<Rightarrow>
   go_error + ('t, 'f) OrderCreatedEvent" where
  "decode_OrderCreated lib tx data =
     (case marshal_any tx data of
        None \<Rightarrow> Inl (ErrorsNew ''json: unsupported value'')
      | Some eventData \<Rightarrow>
          (case json_Unmarshal_into lib (fill_OrderCreatedEvent lib tx) (print tx eventData)
                  (zero_OrderCreatedEvent lib) of
             (Some err, orderCreated) \<Rightarrow> Inl err
           | (None, orderCreated) \<Rightarrow> Inr orderCreated))"

definition HandleOrderCreated_decode ::
  "('t, 'f :: zero) encoding_json \<Rightarrow> ('t, 'f) json_text \<Rightarrow> string \<Rightarrow>
   go_error + ('t, 'f) OrderCreatedEvent" where
  "HandleOrderCreated_decode lib tx val =
     (case json_Unmarshal lib val (zero_Event lib) of
        (Some err, event) \<Rightarrow> Inl err
      | (None, event) \<Rightarrow> decode_OrderCreated lib tx (Data event))"

definition decode_InventoryReserved ::
  "('t, 'f) encoding_json \<Rightarrow> ('t, 'f) json_text \<Rightarrow> 'f any \<Rightarrow>
   go_error + 't InventoryReservedEvent" where
  "decode_InventoryReserved lib tx data =
     (case marshal_any tx data of
        None \<Rightarrow> Inl (ErrorsNew ''json: unsupported value'')
      | Some eventData \<Rightarrow>
          (case json_Unmarshal_into lib (fill_InventoryReservedEvent lib tx) (print tx eventData)
                  (zero_InventoryReservedEvent lib) of
             (Some err, inventoryReserved) \<Rightarrow> Inl err
           | (None, inventoryReserved) \<Rightarrow> Inr inventoryReserved))"

definition handleInventoryReserved_decode ::
  "('t, 'f) encoding_json \<Rightarrow> ('t, 'f) json_text \<Rightarrow> string \<Rightarrow>
   go_error + 't InventoryReservedEvent" where
  "handleInventoryReserved_decode lib tx val =
     (case json_Unmarshal lib val (zero_Event lib) of
        (Some err, event) \<Rightarrow> Inl err
      | (None, event) \<Rightarrow> decode_InventoryReserved lib tx (Data event))"

subsection \<open>What the round trip speaks of\<close>

text \<open>
  The library reads back what it wrote: a float64 and a time from their texts, and the
  bytes of a JSON value as that value.
\<close>

definition float_survives :: "('t, 'f) encoding_json \<Rightarrow> ('t, 'f) json_text \<Rightarrow> 'f \<Rightarrow> bool" where
  "float_survives lib tx x =
     (case FormatFloat tx x of None \<Rightarrow> False | Some s \<Rightarrow> ParseFloat lib s = Some x)"

definition time_survives :: "('t, 'f) encoding_json \<Rightarrow> ('t, 'f) json_text \<Rightarrow> 't \<Rightarrow> bool" where
  "time_survives lib tx t =
     (case FormatTime tx t of None \<Rightarrow> False | Some s \<Rightarrow> ParseTime lib s = Some t)"

definition reads_back :: "('t, 'f) encoding_json \<Rightarrow> ('t, 'f) json_text \<Rightarrow> json option \<Rightarrow> bool" where
  "reads_back lib tx written =
     (case written of None \<Rightarrow> False | Some v \<Rightarrow> scan lib (print tx v) = Some v)"

text \<open>
  An int survives the float64 it becomes in the \<open>interface{}\<close>: its literal is read as a
  float64, the literal of that float64 is read as an int, and that int is the same.
\<close>

definition int_survives :: "('t, 'f) encoding_json \<Rightarrow> ('t, 'f) json_text \<Rightarrow> int \<Rightarrow> bool" where
  "int_survives lib tx q =
     (case ParseFloat lib (FormatInt tx q) of
        None \<Rightarrow> False
      | Some x \<Rightarrow>
          (case FormatFloat tx x of None \<Rightarrow> False | Some s \<Rightarrow> ParseInt tx s = Some q))"

text \<open>The JSON value that the second \<open>json.Marshal\<close> of a handler writes for a payload.\<close>

definition written_again ::
  "('t, 'f) encoding_json \<Rightarrow> ('t, 'f) json_text \<Rightarrow> ('t, 'f) payload \<Rightarrow> json option" where
  "written_again lib tx p =
     (case encode_payload tx p of
        None \<Rightarrow> None
      | Some d \<Rightarrow> marshal_any tx (snd (generic (ParseFloat lib) d)))"

text \<open>
  A valid pair of a type and a payload, as an event: the library reads back the time of
  the event, every time and every float64 of the payload, the bytes of the event and the
  bytes that the handler writes for the payload.
\<close>

definition valid_pair ::
  "('t, 'f) encoding_json \<Rightarrow> ('t, 'f) json_text \<Rightarrow> ('t, ('t, 'f) payload) Event \<Rightarrow> bool" where
  "valid_pair lib tx e =
     (time_survives lib tx (Timestamp e) \<and>
      reads_back lib tx (encode_Event tx e) \<and>
      reads_back lib tx (written_again lib tx (Data e)) \<and>
      (case Data e of
         OrderCreated created \<Rightarrow>
           list_all (\<lambda>item. float_survives lib tx (Price item)) (Items (Order created)) \<and>
           float_survives lib tx (TotalPrice (Order created)) \<and>
           time_survives lib tx (CreatedAt (Order created)) \<and>
           time_survives lib tx (UpdatedAt (Order created))
       | InventoryReserved reserved \<Rightarrow> time_survives lib tx (ReservedAt reserved)))"

text \<open>Every quantity of the payload survives the float64 it becomes.\<close>

definition quantities_survive ::
  "('t, 'f) encoding_json \<Rightarrow> ('t, 'f) json_text \<Rightarrow> ('t, ('t, 'f) payload) Event \<Rightarrow> bool" where
  "quantities_survive lib tx e =
     (case Data e of
        OrderCreated created \<Rightarrow>
          list_all (\<lambda>item. int_survives lib tx (Quantity item)) (Items (Order created))
      | InventoryReserved reserved \<Rightarrow>
          list_all (\<lambda>r. int_survives lib tx (Reservation_Quantity r)) (Reserved_Items reserved))"

text \<open>
  The texts and the JSON values of the round trip: what the library writes for a
  float64, a time and an int that went through a float64; the value written for a struct
  by the service, and the value written again by the handler, with the keys sorted.
\<close>

definition float_text :: "('t, 'f) json_text \<Rightarrow> 'f \<Rightarrow> string" where
  "float_text tx x = (case FormatFloat tx x of Some s \<Rightarrow> s | None \<Rightarrow> [])"

definition time_text :: "('t, 'f) json_text \<Rightarrow> 't \<Rightarrow> string" where
  "time_text tx t = (case FormatTime tx t of Some s \<Rightarrow> s | None \<Rightarrow> [])"

definition int_text :: "('t, 'f) encoding_json \<Rightarrow> ('t, 'f) json_text \<Rightarrow> int \<Rightarrow> string" where
  "int_text lib tx q =
     (case ParseFloat lib (FormatInt tx q) of Some x \<Rightarrow> float_text tx x | None \<Rightarrow> [])"

definition item_survives ::
  "('t, 'f) encoding_json \<Rightarrow> ('t, 'f) json_text \<Rightarrow> 'f OrderItem \<Rightarrow> bool" where
  "item_survives lib tx item =
     (float_survives lib tx (Price item) \<and> int_survives lib tx (Quantity item))"

definition order_survives ::
  "('t, 'f) encoding_json \<Rightarrow> ('t, 'f) json_text \<Rightarrow> ('t, 'f) Order \<Rightarrow> bool" where
  "order_survives lib tx this =
     (list_all (item_survives lib tx) (Items this) \<and>
      float_survives lib tx (TotalPrice this) \<and>
      time_survives lib tx (CreatedAt this) \<and>
      time_survives lib tx (UpdatedAt this))"

definition item_json :: "('t, 'f) json_text \<Rightarrow> 'f OrderItem \<Rightarrow> json" where
  "item_json tx item =
     JObject [(''product_id'', JString (ProductID item)),
              (''quantity'', JNumber (FormatInt tx (Quantity item))),
              (''price'', JNumber (float_text tx (Price item)))]"

definition item_json_again ::
  "('t, 'f) encoding_json \<Rightarrow> ('t, 'f) json_text \<Rightarrow> 'f OrderItem \<Rightarrow> json" where
  "item_json_again lib tx item =
     JObject [(''price'', JNumber (float_text tx (Price item))),
              (''product_id'', JString (ProductID item)),
              (''quantity'', JNumber (int_text lib tx (Quantity item)))]"

definition order_json :: "('t, 'f) json_text \<Rightarrow> ('t, 'f) Order \<Rightarrow> json" where
  "order_json tx this =
     JObject [(''id'', JString (Order_ID this)),
              (''customer_id'', JString (CustomerID this)),
              (''items'', JArray (map (item_json tx) (Items this))),
              (''total_price'', JNumber (float_text tx (TotalPrice this))),
              (''status'', JString (Status this)),
              (''created_at'', JString (time_text tx (CreatedAt this))),
              (''updated_at'', JString (time_text tx (UpdatedAt this)))]"

definition order_json_again ::
  "('t, 'f) encoding_json \<Rightarrow> ('t, 'f) json_text \<Rightarrow> ('t, 'f) Order \<Rightarrow> json" where
  "order_json_again lib tx this =
     JObject [(''created_at'', JString (time_text tx (CreatedAt this))),
              (''customer_id'', JString (CustomerID this)),
              (''id'', JString (Order_ID this)),
              (''items'', JArray (map (item_json_again lib tx) (Items this))),
              (''status'', JString (Status this)),
              (''total_price'', JNumber (float_text tx (TotalPrice this))),
              (''updated_at'', JString (time_text tx (UpdatedAt this)))]"

definition reservation_json_again ::
  "('t, 'f) encoding_json \<Rightarrow> ('t, 'f) json_text \<Rightarrow> InventoryReservation \<Rightarrow> json" where
  "reservation_json_again lib tx r =
     JObject [(''product_id'', JString (Reservation_ProductID r)),
              (''quantity'', JNumber (int_text lib tx (Reservation_Quantity r)))]"

definition reserved_json :: "('t, 'f) json_text \<Rightarrow> 't InventoryReservedEvent \<Rightarrow> json" where
  "reserved_json tx reserved =
     JObject [(''order_id'', JString (OrderID reserved)),
              (''items'', JArray (map (encode_InventoryReservation tx) (Reserved_Items reserved))),
              (''reserved_at'', JString (time_text tx (ReservedAt reserved)))]"

definition reserved_json_again ::
  "('t, 'f) encoding_json \<Rightarrow> ('t, 'f) json_text \<Rightarrow> 't InventoryReservedEvent \<Rightarrow> json" where
  "reserved_json_again lib tx reserved =
     JObject [(''items'', JArray (map (reservation_json_again lib tx) (Reserved_Items reserved))),
              (''order_id'', JString (OrderID reserved)),
              (''reserved_at'', JString (time_text tx (ReservedAt reserved)))]"

definition payload_json :: "('t, 'f) json_text \<Rightarrow> ('t, 'f) payload \<Rightarrow> json" where
  "payload_json tx p =
     (case p of
        OrderCreated created \<Rightarrow> JObject [(''order'', order_json tx (Order created))]
      | InventoryReserved reserved \<Rightarrow> reserved_json tx reserved)"

definition payload_json_again ::
  "('t, 'f) encoding_json \<Rightarrow> ('t, 'f) json_text \<Rightarrow> ('t, 'f) payload \<Rightarrow> json" where
  "payload_json_again lib tx p =
     (case p of
        OrderCreated created \<Rightarrow> JObject [(''order'', order_json_again lib tx (Order created))]
      | InventoryReserved reserved \<Rightarrow> reserved_json_again lib tx reserved)"

definition event_json :: "('t, 'f) json_text \<Rightarrow> ('t, ('t, 'f) payload) Event \<Rightarrow> json" where
  "event_json tx e =
     JObject [(''id'', JString (ID e)), (''type'', JString (Type e)),
              (''timestamp'', JString (time_text tx (Timestamp e))),
              (''data'', payload_json tx (Data e))]"

section \<open>Inputs of the examples\<close>

definition record_at :: "string \<Rightarrow> int \<Rightarrow> Message" where
  "record_at topic off =
     \<lparr>Topic = topic, Partition = 0, Offset = off, Key = ''order-1'', Value = ''{}'', Headers = []\<rparr>"

definition handler_ok :: "unit MessageHandler" where
  "handler_ok msg w = (None, w)"


definition consumer_ok :: "unit Consumer" where
  "consumer_ok = \<lparr>handlers = [''order_created'' \<mapsto> handler_ok]\<rparr>"






definition poll_errors_then_cancel :: "tick list" where
  "poll_errors_then_cancel =
     [ReadFails ErrTimedOut, ReadFails (ErrOther 7), ReadFails ErrTimedOut, CtxDone Canceled,
      ReadFails (ErrOther 8)]"

text \<open>
  Two broker clients for \<open>Subscribe\<close>. Both refuse an empty topic list, as librdkafka
  does (invalid argument); the second also rejects a topic it does not know.
\<close>

definition refuses_empty :: "string list \<Rightarrow> go_error option" where
  "refuses_empty topics = (if topics = [] then Some (KafkaError (ErrOther 0)) else None)"

definition refuses_or_unknown :: "string list \<Rightarrow> go_error option" where
  "refuses_or_unknown topics =
     (if topics = [] then Some (KafkaError (ErrOther 0))
      else if ''no_such_topic'' \<in> set topics then Some (KafkaError (ErrOther 1))
      else None)"

definition slow_broker :: publish_env where
  "slow_broker = \<lparr>now_RFC3339 = ''2024-05-01T10:00:00Z'', run = Waits (Done DeadlineExceeded)\<rparr>"

text \<open>
  A stand-in for encoding/json in the examples. It reads the seven inputs below as the
  library does and refuses every other input; times and floats stay as their text.
\<close>

definition toy_scan :: "string \<Rightarrow> json option" where
  \<open>toy_scan data =
     (if data = ''{}'' then Some (JObject [])
      else if data = ''{"id":"e1"}'' then Some (JObject [(''id'', JString ''e1'')])
      else if data = ''{"id":"e1","type":5}'' then
        Some (JObject [(''id'', JString ''e1''), (''type'', JNumber ''5'')])
      else if data = ''[]'' then Some (JArray [])
      else if data = ''{"note":"x"}'' then Some (JObject [(''note'', JString ''x'')])
      else if data =
        ''{"id":"e2","type":"order.created","timestamp":"2024-05-01T10:00:00Z","data":{"order":{"total_price":1e999}}}''
      then
        Some (JObject [(''id'', JString ''e2''), (''type'', JString ''order.created''),
                       (''timestamp'', JString ''2024-05-01T10:00:00Z''),
                       (''data'', JObject [(''order'', JObject [(''total_price'', JNumber ''1e999'')])])])
      else if data =
        ''{"id":"e1","type":"order.shipped","timestamp":"2024-05-01T10:00:00Z","data":[1,"x"]}''
      then
        Some (JObject [(''id'', JString ''e1''), (''type'', JString ''order.shipped''),
                       (''timestamp'', JString ''2024-05-01T10:00:00Z''),
                       (''data'', JArray [JNumber ''1'', JString ''x''])])
      else None)\<close>

definition toy_lib :: "(string, string) encoding_json" where
  "toy_lib =
     \<lparr>scan = toy_scan,
      ParseFloat = (\<lambda>s. if s = ''1e999'' then None else Some s),
      ParseTime = (\<lambda>s. if s = ''2024-05-01T10:00:00Z'' then Some s else None),
      ZeroTime = ''0001-01-01T00:00:00Z'',
      foldName = (\<lambda>s. s)\<rparr>"

text \<open>
  A stand-in for encoding/json on both sides, for the round trip. A float64 of the
  stand-in is an integer that a float64 holds: a number literal is a decimal integer,
  read as the nearest integer with 53 significant bits (a tie goes to the even one), as
  \<open>strconv.ParseFloat\<close> reads it, and written in full, as the library writes a float64
  below 1e21. A time is its text. A JSON value is written without spaces, as the library
  writes it; the stand-in reads the six texts of the examples and refuses every other
  input.
\<close>

definition digit :: "int \<Rightarrow> char" where
  "digit n = ''0123456789'' ! nat n"

function digits :: "int \<Rightarrow> string" where
  "digits n = (if n < 10 then [digit n] else digits (n div 10) @ [digit (n mod 10)])"
  by pat_completeness auto
termination by (relation "measure nat") auto

definition show_int :: "int \<Rightarrow> string" where
  "show_int q = (if q < 0 then CHR ''-'' # digits (- q) else digits q)"

definition digit_value :: "char \<Rightarrow> int option" where
  "digit_value c = map_of (zip ''0123456789'' [0, 1, 2, 3, 4, 5, 6, 7, 8, 9]) c"

fun read_digits :: "string \<Rightarrow> int \<Rightarrow> int option" where
  "read_digits [] n = Some n"
| "read_digits (c # cs) n =
     (case digit_value c of None \<Rightarrow> None | Some d \<Rightarrow> read_digits cs (10 * n + d))"

definition read_int :: "string \<Rightarrow> int option" where
  "read_int s =
     (case s of
        [] \<Rightarrow> None
      | c # cs \<Rightarrow>
          (if c = CHR ''-'' then
             (if cs = [] then None else map_option uminus (read_digits cs 0))
           else read_digits s 0))"

definition nearest_even :: "int \<Rightarrow> int \<Rightarrow> int" where
  "nearest_even n u =
     (let q = n div u; r = n mod u
      in (if 2 * r < u \<or> (2 * r = u \<and> even q) then q else q + 1) * u)"

definition round53 :: "int \<Rightarrow> int option" where
  "round53 n =
     (case find (\<lambda>u. \<bar>n\<bar> < 2 ^ 53 * u) [1, 2, 4, 8, 16, 32, 64, 128, 256, 512, 1024, 2048] of
        None \<Rightarrow> None
      | Some u \<Rightarrow> Some (nearest_even n u))"

definition int_ParseFloat :: "string \<Rightarrow> int option" where
  "int_ParseFloat s = (case read_int s of None \<Rightarrow> None | Some n \<Rightarrow> round53 n)"

definition int_ParseInt :: "string \<Rightarrow> int option" where
  "int_ParseInt s =
     (case read_int s of
        None \<Rightarrow> None
      | Some n \<Rightarrow> if - (2 ^ 63) \<le> n \<and> n < 2 ^ 63 then Some n else None)"

fun commas :: "string list \<Rightarrow> string" where
  "commas [] = []"
| "commas [s] = s"
| "commas (s # t # ss) = s @ '','' @ commas (t # ss)"

fun show_json :: "json \<Rightarrow> string" where
  \<open>show_json JNull = ''null''\<close>
| \<open>show_json (JBool b) = (if b then ''true'' else ''false'')\<close>
| \<open>show_json (JNumber s) = s\<close>
| \<open>show_json (JString s) = ''"'' @ s @ ''"''\<close>
| \<open>show_json (JArray vs) = ''['' @ commas (map show_json vs) @ '']''\<close>
| \<open>show_json (JObject kvs) =
     ''{'' @ commas (map (\<lambda>kv. ''"'' @ fst kv @ ''":'' @ show_json (snd kv)) kvs) @ ''}''\<close>

text \<open>
  An \<open>order.created\<close> event for an order of one item in the quantity \<open>q\<close>, and an
  \<open>inventory.reserved\<close> event for it.
\<close>

definition example_order :: "int \<Rightarrow> (string, int) Order" where
  "example_order q =
     \<lparr>Order_ID = ''o1'', CustomerID = ''c1'',
      Items = [\<lparr>ProductID = ''p1'', Quantity = q, Price = 10\<rparr>],
      TotalPrice = 20, Status = ''pending'',
      CreatedAt = ''2024-05-01T10:00:00Z'', UpdatedAt = ''2024-05-01T10:00:00Z''\<rparr>"

definition example_created :: "int \<Rightarrow> (string, (string, int) payload) Event" where
  "example_created q =
     \<lparr>ID = ''e1'', Type = ''order.created'', Timestamp = ''2024-05-01T10:00:00Z'',
      Data = OrderCreated \<lparr>Order = example_order q\<rparr>\<rparr>"

definition example_reservation :: "int \<Rightarrow> string InventoryReservedEvent" where
  "example_reservation q =
     \<lparr>OrderID = ''o1'',
      Reserved_Items = [\<lparr>Reservation_ProductID = ''p1'', Reservation_Quantity = q\<rparr>],
      ReservedAt = ''2024-05-01T10:00:00Z''\<rparr>"

definition example_reserved :: "int \<Rightarrow> (string, (string, int) payload) Event" where
  "example_reserved q =
     \<lparr>ID = ''e3'', Type = ''inventory.reserved'', Timestamp = ''2024-05-01T10:00:00Z'',
      Data = InventoryReserved (example_reservation q)\<rparr>"

text \<open>
  The JSON values of the examples: the event as the service writes it and the payload as
  the handler writes it again, for a quantity with the literal \<open>quantity\<close>.
\<close>

definition created_written :: "string \<Rightarrow> json" where
  "created_written quantity =
     JObject [(''id'', JString ''e1''), (''type'', JString ''order.created''),
              (''timestamp'', JString ''2024-05-01T10:00:00Z''),
              (''data'', JObject [(''order'',
                 JObject [(''id'', JString ''o1''), (''customer_id'', JString ''c1''),
                          (''items'', JArray [JObject [(''product_id'', JString ''p1''),
                                                       (''quantity'', JNumber quantity),
                                                       (''price'', JNumber ''10'')]]),
                          (''total_price'', JNumber ''20''), (''status'', JString ''pending''),
                          (''created_at'', JString ''2024-05-01T10:00:00Z''),
                          (''updated_at'', JString ''2024-05-01T10:00:00Z'')])])]"

definition created_written_again :: "string \<Rightarrow> json" where
  "created_written_again quantity =
     JObject [(''order'',
        JObject [(''created_at'', JString ''2024-05-01T10:00:00Z''),
                 (''customer_id'', JString ''c1''), (''id'', JString ''o1''),
                 (''items'', JArray [JObject [(''price'', JNumber ''10''),
                                              (''product_id'', JString ''p1''),
                                              (''quantity'', JNumber quantity)]]),
                 (''status'', JString ''pending''), (''total_price'', JNumber ''20''),
                 (''updated_at'', JString ''2024-05-01T10:00:00Z'')])]"

definition reserved_written :: "string \<Rightarrow> json" where
  "reserved_written quantity =
     JObject [(''id'', JString ''e3''), (''type'', JString ''inventory.reserved''),
              (''timestamp'', JString ''2024-05-01T10:00:00Z''),
              (''data'',
                 JObject [(''order_id'', JString ''o1''),
                          (''items'', JArray [JObject [(''product_id'', JString ''p1''),
                                                       (''quantity'', JNumber quantity)]]),
                          (''reserved_at'', JString ''2024-05-01T10:00:00Z'')])]"

definition reserved_written_again :: "string \<Rightarrow> json" where
  "reserved_written_again quantity =
     JObject [(''items'', JArray [JObject [(''product_id'', JString ''p1''),
                                           (''quantity'', JNumber quantity)]]),
              (''order_id'', JString ''o1''),
              (''reserved_at'', JString ''2024-05-01T10:00:00Z'')]"

definition order_scan :: "string \<Rightarrow> json option" where
  "order_scan data =
     find (\<lambda>v. show_json v = data)
       [created_written ''2'', created_written_again ''2'',
        reserved_written ''2'', reserved_written_again ''2'',
        created_written ''9007199254740993'', created_written_again ''9007199254740992'']"

definition order_lib :: "(string, int) encoding_json" where
  "order_lib =
     \<lparr>scan = order_scan,
      ParseFloat = int_ParseFloat,
      ParseTime = (\<lambda>s. if s = ''2024-05-01T10:00:00Z'' then Some s else None),
      ZeroTime = ''0001-01-01T00:00:00Z'',
      foldName = (\<lambda>s. s)\<rparr>"

definition order_text :: "(string, int) json_text" where
  "order_text =
     \<lparr>print = show_json,
      FormatFloat = (\<lambda>x. Some (show_int x)),
      FormatTime = Some,
      FormatInt = show_int,
      ParseInt = int_ParseInt\<rparr>"

section \<open>The loop commits after success and stops on cancellation\<close>

lemma fst_emit: "fst (emit evs res) = fst res"
  by (simp add: emit_def split: prod.splits)



lemma Start_loop_result: "fst (Start_loop c ts w) = map_option ContextError (first_done ts)"
proof (induction ts arbitrary: w)
  case Nil
  then show ?case by simp
next
  case (Cons t ts)
  then show ?case
    by (cases t) (auto simp: fst_emit split: prod.splits option.splits)
qed

lemma committed_simps:
  "committed cm [] = cm"
  "committed cm (Commit m None # evs) =
     committed (cm((Topic m, Partition m) \<mapsto> Offset m + 1)) evs"
  "committed cm (Commit m (Some err) # evs) = committed cm evs"
  "committed cm (Logged l s fs # evs) = committed cm evs"
  "committed cm (Handled m r # evs) = committed cm evs"
  "committed cm (Produce m # evs) = committed cm evs"
  by (simp_all add: committed_def commit_step_def)











lemma step_handler_success:
  assumes "handlers c (Topic msg) = Some h" and "h msg w = (None, w')"
  shows "Start_loop c (ReadReturns msg answer # ts) w =
           emit (received msg # Handled msg None # Commit msg answer #
                   (case answer of None \<Rightarrow> [] | Some err \<Rightarrow> [commit_failed msg err]))
             (Start_loop c ts w')"
  using assms by (simp add: processMessage_def Let_def)

lemma step_no_handler:
  assumes "handlers c (Topic msg) = None"
  shows "Start_loop c (ReadReturns msg answer # ts) w =
           emit (received msg #
                 Logged WarnLevel ''No handler registered for topic'' [ZString ''topic'' (Topic msg)] #
                 Commit msg answer #
                   (case answer of None \<Rightarrow> [] | Some err \<Rightarrow> [commit_failed msg err]))
             (Start_loop c ts w)"
  using assms by (simp add: processMessage_def Let_def)















text \<open>
  Claim C4. \<open>Start\<close> returns exactly when a turn of its loop finds \<open>ctx.Done()\<close> ready, and
  what it returns is that context's error, whatever \<open>ReadMessage\<close> returned in the turns
  before; after any turns without a cancellation the loop is still running. A poll
  timeout goes to the next turn in silence; any other poll error is logged and the loop
  goes to the next turn.
\<close>
theorem Start_returns_on_cancellation_only:
  "fst (Start c ts w) = map_option ContextError (first_done ts) \<and>
   Start_loop c (ReadFails ErrTimedOut # ts) w = Start_loop c ts w \<and>
   Start_loop c (ReadFails (ErrOther n) # ts) w =
     emit [Logged ErrorLevel ''Error reading message'' [ZError (KafkaError (ErrOther n))]]
       (Start_loop c ts w)"
  by (simp add: Start_def fst_emit Start_loop_result)

text \<open>
  A run: a timeout, a poll error, a timeout, then the cancellation; the turn after it is
  never reached.
\<close>

lemma Start_example:
  "Start consumer_ok poll_errors_then_cancel () =
     (Some (ContextError Canceled), (),
      [Logged InfoLevel ''Starting Kafka consumer...'' [],
       Logged ErrorLevel ''Error reading message'' [ZError (KafkaError (ErrOther 7))],
       Logged InfoLevel ''Consumer context cancelled, stopping...'' []])"
  by (simp add: Start_def emit_def poll_errors_then_cancel_def)

text \<open>
  Claim C8. For a record whose topic has no handler, \<open>processMessage\<close> logs the record
  and the warning and returns nil, with the world untouched; the loop then commits the
  record, runs no handler and goes on with the next turn: the record is not taken up
  again.
\<close>
theorem no_handler_skipped:
  assumes "handlers c (Topic msg) = None"
  shows "processMessage c msg w =
           (None, w,
            [received msg,
             Logged WarnLevel ''No handler registered for topic'' [ZString ''topic'' (Topic msg)]]) \<and>
         Start_loop c (ReadReturns msg answer # ts) w =
           emit (received msg #
                 Logged WarnLevel ''No handler registered for topic'' [ZString ''topic'' (Topic msg)] #
                 Commit msg answer #
                   (case answer of None \<Rightarrow> [] | Some err \<Rightarrow> [commit_failed msg err]))
             (Start_loop c ts w)"
  using assms step_no_handler[OF assms] by (simp add: processMessage_def Let_def)

text \<open>C8 at work: a record of \<open>payments\<close> for a consumer that handles \<open>order_created\<close> only.\<close>
theorem no_handler_skipped_witness:
  "handlers consumer_ok (Topic (record_at ''payments'' 5)) = None \<and>
   processMessage consumer_ok (record_at ''payments'' 5) () =
     (None, (),
      [received (record_at ''payments'' 5),
       Logged WarnLevel ''No handler registered for topic'' [ZString ''topic'' ''payments'']]) \<and>
   Start_loop consumer_ok [ReadReturns (record_at ''payments'' 5) None] () =
     (None, (),
      [received (record_at ''payments'' 5),
       Logged WarnLevel ''No handler registered for topic'' [ZString ''topic'' ''payments''],
       Commit (record_at ''payments'' 5) None])"
proof -
  have h: "handlers consumer_ok (Topic (record_at ''payments'' 5)) = None"
    by (simp add: consumer_ok_def record_at_def)
  have t: "Topic (record_at ''payments'' 5) = ''payments''"
    by (simp add: record_at_def)
  show ?thesis
    using no_handler_skipped[OF h, of "()" None "[]"] h t by (simp add: emit_def)
qed

text \<open>
  Claim C10. When the handler of a record succeeded and \<open>CommitMessage\<close> returns an
  error, the turn logs that error after the single commit call and the loop goes on with
  the next turn: it returns what the rest of the loop returns, and the committed offsets
  are left as they were.
\<close>
theorem commit_failure_only_logged:
  assumes "handlers c (Topic msg) = Some h" and "h msg w = (None, w')"
  shows "Start_loop c (ReadReturns msg (Some err) # ts) w =
           emit [received msg, Handled msg None, Commit msg (Some err), commit_failed msg err]
             (Start_loop c ts w') \<and>
         fst (Start_loop c (ReadReturns msg (Some err) # ts) w) = fst (Start_loop c ts w') \<and>
         committed cm [received msg, Handled msg None, Commit msg (Some err), commit_failed msg err]
           = cm"
  using step_handler_success[OF assms, of "Some err" ts]
  by (simp add: fst_emit committed_simps received_def commit_failed_def)

text \<open>
  C10 at work: the commit of the record at 42 fails; the loop logs it and handles and
  commits the record at 43.
\<close>
theorem commit_failure_only_logged_witness:
  "handlers consumer_ok (Topic (record_at ''order_created'' 42)) = Some handler_ok \<and>
   handler_ok (record_at ''order_created'' 42) () = (None, ()) \<and>
   Start_loop consumer_ok
     [ReadReturns (record_at ''order_created'' 42) (Some (KafkaError (ErrOther 3))),
      ReadReturns (record_at ''order_created'' 43) None] () =
     (None, (),
      [received (record_at ''order_created'' 42), Handled (record_at ''order_created'' 42) None,
       Commit (record_at ''order_created'' 42) (Some (KafkaError (ErrOther 3))),
       commit_failed (record_at ''order_created'' 42) (KafkaError (ErrOther 3)),
       received (record_at ''order_created'' 43), Handled (record_at ''order_created'' 43) None,
       Commit (record_at ''order_created'' 43) None])"
proof -
  have h: "handlers consumer_ok (Topic (record_at ''order_created'' 42)) = Some handler_ok"
    by (simp add: consumer_ok_def record_at_def)
  have r: "handler_ok (record_at ''order_created'' 42) () = (None, ())"
    by (simp add: handler_ok_def)
  have h': "handlers consumer_ok (Topic (record_at ''order_created'' 43)) = Some handler_ok"
    by (simp add: consumer_ok_def record_at_def)
  have r': "handler_ok (record_at ''order_created'' 43) () = (None, ())"
    by (simp add: handler_ok_def)
  have rest: "Start_loop consumer_ok [ReadReturns (record_at ''order_created'' 43) None] () =
      (None, (), [received (record_at ''order_created'' 43),
         Handled (record_at ''order_created'' 43) None, Commit (record_at ''order_created'' 43) None])"
    using step_handler_success[OF h' r', of None "[]"] by (simp add: emit_def)
  show ?thesis
    using commit_failure_only_logged[OF h r, of "KafkaError (ErrOther 3)"
        "[ReadReturns (record_at ''order_created'' 43) None]" Map.empty] h r rest
    by (simp add: emit_def)
qed

section \<open>Subscribe fails when the client does\<close>

text \<open>What \<open>Subscribe\<close> returns and logs, by the client's answer.\<close>

lemma Subscribe_result:
  "fst (Subscribe SubscribeTopics topics) =
     map_option (Errorf ''failed to subscribe to topics'') (SubscribeTopics topics) \<and>
   snd (Subscribe SubscribeTopics topics) =
     (case SubscribeTopics topics of
        Some err \<Rightarrow> []
      | None \<Rightarrow> [Logged InfoLevel ''Subscribed to topics'' [ZStrings ''topics'' topics]])"
  by (simp add: Subscribe_def split: option.splits)

text \<open>
  Claim C9. With a broker client that refuses an empty topic list, as the client of the
  program does, \<open>Subscribe\<close> returns an error whenever the topic list is empty or the
  client rejects the subscription: the client's error, wrapped, and nothing else happens
  (no log line, no loop).
\<close>
theorem Subscribe_fails_fast:
  assumes "SubscribeTopics [] \<noteq> None"
    and "topics = [] \<or> SubscribeTopics topics \<noteq> None"
  shows "\<exists>err. SubscribeTopics topics = Some err \<and>
               Subscribe SubscribeTopics topics =
                 (Some (Errorf ''failed to subscribe to topics'' err), [])"
proof -
  have "SubscribeTopics topics \<noteq> None" using assms by auto
  then obtain err where "SubscribeTopics topics = Some err" by auto
  then show ?thesis by (simp add: Subscribe_def)
qed

text \<open>
  C9 at work: the empty list with a client that refuses it, and a list that the client
  rejects.
\<close>
theorem Subscribe_fails_fast_witness:
  "refuses_empty [] \<noteq> None \<and>
   Subscribe refuses_empty [] =
     (Some (Errorf ''failed to subscribe to topics'' (KafkaError (ErrOther 0))), []) \<and>
   refuses_or_unknown [''no_such_topic''] \<noteq> None \<and>
   Subscribe refuses_or_unknown [''no_such_topic''] =
     (Some (Errorf ''failed to subscribe to topics'' (KafkaError (ErrOther 1))), []) \<and>
   Subscribe refuses_empty [''order_created''] =
     (None, [Logged InfoLevel ''Subscribed to topics'' [ZStrings ''topics'' [''order_created'']]])"
proof -
  have e: "refuses_empty [] \<noteq> None" and e': "refuses_empty [] = Some (KafkaError (ErrOther 0))"
    by (simp_all add: refuses_empty_def)
  have u: "refuses_or_unknown [] \<noteq> None"
    and u': "refuses_or_unknown [''no_such_topic''] \<noteq> None"
    and u'': "refuses_or_unknown [''no_such_topic''] = Some (KafkaError (ErrOther 1))"
    by (simp_all add: refuses_or_unknown_def)
  have 1: "Subscribe refuses_empty [] =
      (Some (Errorf ''failed to subscribe to topics'' (KafkaError (ErrOther 0))), [])"
    using Subscribe_fails_fast[of refuses_empty "[]"] e e' by simp
  have 2: "Subscribe refuses_or_unknown [''no_such_topic''] =
      (Some (Errorf ''failed to subscribe to topics'' (KafkaError (ErrOther 1))), [])"
    using Subscribe_fails_fast[of refuses_or_unknown "[''no_such_topic'']"] u u' u'' by simp
  have 3: "Subscribe refuses_empty [''order_created''] =
     (None, [Logged InfoLevel ''Subscribed to topics'' [ZStrings ''topics'' [''order_created'']]])"
    by (simp add: Subscribe_def refuses_empty_def)
  show ?thesis using e u' 1 2 3 by simp
qed

section \<open>Publish and the context\<close>

text \<open>
  Claim C3. When the wait of \<open>Publish\<close> ends on \<open>ctx.Done()\<close>, \<open>Publish\<close> returns the
  context's error; a delivery failure would have come back as another error, wrapped as
  "delivery failed", which \<open>errors.Is\<close> tells from the context's; and \<open>Produce\<close> was called
  once: the events of the call are that one \<open>Produce\<close>.
\<close>
theorem Publish_context_done:
  assumes "run env = Waits (Done e)"
  shows "fst (Publish env topic key val) = Some (Some (ContextError e)) \<and>
         (\<forall>m err. fst (Publish (env\<lparr>run := Waits (Delivery m (Some err))\<rparr>) topic key val) =
            Some (Some (Errorf ''delivery failed'' err)) \<and>
            \<not> errors_Is (ContextError e) (Errorf ''delivery failed'' err)) \<and>
         snd (Publish env topic key val) =
           [Produce \<lparr>Topic = topic, Partition = PartitionAny, Offset = 0, Key = key, Value = val,
                     Headers = [(''timestamp'', now_RFC3339 env)]\<rparr>] \<and>
         length (produce_calls (snd (Publish env topic key val))) = 1"
  using assms by (simp add: Publish_def Let_def)

text \<open>C3 at work: the deadline passes before the broker answers.\<close>
theorem Publish_context_done_witness:
  "run slow_broker = Waits (Done DeadlineExceeded) \<and>
   Publish slow_broker ''order_created'' ''order-1'' ''{}'' =
     (Some (Some (ContextError DeadlineExceeded)),
      [Produce \<lparr>Topic = ''order_created'', Partition = PartitionAny, Offset = 0,
                Key = ''order-1'', Value = ''{}'',
                Headers = [(''timestamp'', ''2024-05-01T10:00:00Z'')]\<rparr>]) \<and>
   fst (Publish (slow_broker\<lparr>run := Waits (Delivery (record_at ''order_created'' 0)
                                               (Some (KafkaError (ErrOther 1))))\<rparr>)
          ''order_created'' ''order-1'' ''{}'') =
     Some (Some (Errorf ''delivery failed'' (KafkaError (ErrOther 1))))"
proof -
  have w: "run slow_broker = Waits (Done DeadlineExceeded)"
    and n: "now_RFC3339 slow_broker = ''2024-05-01T10:00:00Z''"
    by (simp_all add: slow_broker_def)
  show ?thesis
    using Publish_context_done[OF w, of "''order_created''" "''order-1''" "''{}''"] w n
    by (cases "Publish slow_broker ''order_created'' ''order-1'' ''{}''") simp
qed

section \<open>Event ids within one tick of the clock\<close>

lemma length_letters: "length letters = 62"
  by (simp add: letters_def)

text \<open>The id is a function of the nine clock readings of the call and of nothing else.\<close>

lemma randomString_readings:
  "(\<forall>i < n. now' (k' + i) smod 62 = now (k + i) smod 62) \<Longrightarrow>
   fst (randomString now' k' n) = fst (randomString now k n)"
proof (induction n arbitrary: k k')
  case 0
  then show ?case by simp
next
  case (Suc n)
  have head: "now' k' smod 62 = now k smod 62"
    using Suc.prems[rule_format, of 0] by simp
  have "now' (Suc k' + i) smod 62 = now (Suc k + i) smod 62" if "i < n" for i
    using Suc.prems[rule_format, of "Suc i"] that by simp
  then have "fst (randomString now' (Suc k') n) = fst (randomString now (Suc k) n)"
    using Suc.IH by blast
  then show ?case using head
    by (cases "randomString now' (Suc k') n"; cases "randomString now (Suc k) n")
       (auto simp: length_letters Let_def split: option.splits)
qed

lemma generateEventID_same_tick:
  assumes "\<forall>i < 9. now (k' + i) = now (k + i)"
  shows "fst (generateEventID Format now k') = fst (generateEventID Format now k)"
proof -
  have "now (Suc k' + i) smod 62 = now (Suc k + i) smod 62" if "i < 8" for i
    using assms[rule_format, of "Suc i"] that by simp
  then have "fst (randomString now (Suc k') 8) = fst (randomString now (Suc k) 8)"
    using randomString_readings[of 8 now "Suc k'" now "Suc k"] by blast
  moreover have "now k' = now k" using assms[rule_format, of 0] by simp
  ultimately show ?thesis
    by (cases "randomString now (Suc k') 8"; cases "randomString now (Suc k) 8")
       (auto simp: generateEventID_def split: option.splits)
qed

lemma randomString_8_const:
  "t smod 62 = 26 \<Longrightarrow> randomString (\<lambda>k. t) k 8 = (Some ''AAAAAAAA'', k + 8)"
  by (simp add: eval_nat_numeral Let_def length_letters) (simp add: letters_def)

text \<open>
  Claim C2 fails on the code. With a clock that reads the same instant throughout (calls
  within one tick of the clock), every call of \<open>generateEventID\<close>, whatever came before
  it (\<open>k\<close> readings of the clock), returns the same id: every byte of the suffix is the
  clock reading modulo 62. So do the first and the last of 10000 calls in a row.
\<close>
theorem generateEventID_collides_in_one_tick:
  "generateEventID Format (\<lambda>k. 1700000000000000000) k =
     (Some (Format 1700000000000000000 @ ''-AAAAAAAA''), k + 9) \<and>
   fst (generateEventID Format (\<lambda>k. 1700000000000000000) 0) =
   fst (generateEventID Format (\<lambda>k. 1700000000000000000) (9 * 9999))"
proof -
  have "(1700000000000000000 :: int) smod 62 = 26"
    by (simp add: signed_modulo_int_def)
  then have "generateEventID Format (\<lambda>k. 1700000000000000000) j =
      (Some (Format 1700000000000000000 @ ''-AAAAAAAA''), j + 9)" for j
    by (simp add: generateEventID_def randomString_8_const)
  then show ?thesis by simp
qed

section \<open>Decoding the envelope\<close>

lemma first_error_None: "first_error es = None \<longleftrightarrow> (\<forall>e \<in> set es. e = None)"
  by (induction es rule: first_error.induct) auto

lemma generic_ok: "fst (generic pf v) = None \<longleftrightarrow> numbers_fit pf v"
  by (induction pf v rule: generic.induct)
     (auto simp: first_error_None list_all_iff split: option.splits)


lemma failed_save: "failed (save err st)"
  by (simp add: failed_def save_def split: option.splits)

lemma failed_store: "failed st \<Longrightarrow> failed (store lib f v st)"
  by (auto simp: failed_def store_def save_def
        split: Event_field.splits json.splits option.splits prod.splits)

lemma store_mistyped: "mistyped lib f v \<Longrightarrow> failed (store lib f v st)"
proof (cases f)
  case Field_ID
  assume "mistyped lib f v"
  then show ?thesis using Field_ID
    by (cases v) (simp_all add: mistyped_def store_def failed_save)
next
  case Field_Type
  assume "mistyped lib f v"
  then show ?thesis using Field_Type
    by (cases v) (simp_all add: mistyped_def store_def failed_save)
next
  case Field_Timestamp
  assume "mistyped lib f v"
  then show ?thesis using Field_Timestamp
    by (cases v) (simp_all add: mistyped_def store_def failed_def)
next
  case Field_Data
  assume "mistyped lib f v"
  then have bad: "fst (generic (ParseFloat lib) v) \<noteq> None"
    using Field_Data by (simp add: mistyped_def generic_ok)
  then obtain err a where g: "generic (ParseFloat lib) v = (Some err, a)"
    by (cases "generic (ParseFloat lib) v") auto
  show ?thesis
  proof (cases v)
    case (JNumber s)
    then show ?thesis using Field_Data bad
      by (simp add: store_def failed_save split: option.splits)
  qed (use Field_Data g in \<open>simp_all add: store_def failed_save\<close>)
qed

lemma failed_decode_object: "failed st \<Longrightarrow> failed (decode_object lib kvs st)"
proof (induction kvs arbitrary: st)
  case Nil
  then show ?case by simp
next
  case (Cons kv kvs)
  obtain key v where kv: "kv = (key, v)" by (cases kv)
  show ?case
  proof (cases "stopped st")
    case None
    have "failed (case field_of lib key of None \<Rightarrow> st | Some f \<Rightarrow> store lib f v st)"
      using Cons.prems by (simp add: failed_store split: option.splits)
    then show ?thesis using kv None Cons.IH by simp
  next
    case (Some err)
    then show ?thesis using kv Cons.prems by simp
  qed
qed

lemma decode_object_mistyped:
  assumes "(key, v) \<in> set kvs" and "field_of lib key = Some f" and "mistyped lib f v"
  shows "failed (decode_object lib kvs st)"
  using assms(1)
proof (induction kvs arbitrary: st)
  case Nil
  then show ?case by simp
next
  case (Cons kv kvs)
  obtain key' v' where kv: "kv = (key', v')" by (cases kv)
  show ?case
  proof (cases "stopped st")
    case (Some err)
    then show ?thesis using kv by (simp add: failed_def)
  next
    case None
    show ?thesis
    proof (cases "kv = (key, v)")
      case True
      then have "failed (store lib f v st)" using assms(3) by (simp add: store_mistyped)
      then show ?thesis using True None assms(2) by (simp add: failed_decode_object)
    next
      case False
      then have "(key, v) \<in> set kvs" using Cons.prems by simp
      then show ?thesis using kv None Cons.IH by simp
    qed
  qed
qed

lemma decode_object_unknown_keys:
  "\<forall>kv \<in> set kvs. field_of lib (fst kv) = None \<Longrightarrow> decode_object lib kvs st = st"
  by (induction kvs arbitrary: st) (auto split: option.splits)

lemma json_Unmarshal_failed:
  assumes "scan lib data = Some (JObject kvs)"
    and "failed (decode_object lib kvs \<lparr>stopped = None, saved = None, target = event\<rparr>)"
  shows "fst (json_Unmarshal lib data event) \<noteq> None"
  using assms by (auto simp: json_Unmarshal_def Let_def failed_def split: option.splits)

lemma UnmarshalEvent_Inl:
  "fst (json_Unmarshal lib data (zero_Event lib)) \<noteq> None \<Longrightarrow>
   \<exists>err. UnmarshalEvent lib data = Inl err"
  by (cases "json_Unmarshal lib data (zero_Event lib)") (auto simp: UnmarshalEvent_def)


text \<open>
  Claim C6, as the code has it. \<open>UnmarshalEvent\<close> returns the error and no event when the
  bytes are no JSON text, when the JSON value is neither an object nor \<open>null\<close>, when a key
  of an envelope field holds a value the decoder refuses for that field, and in general
  whenever \<open>json.Unmarshal\<close> reports an error, whatever it stored before. An object none
  of whose keys is an envelope field is accepted, and gives the zero event.
\<close>
theorem UnmarshalEvent_decode_errors:
  "(scan lib data = None \<longrightarrow> UnmarshalEvent lib data = Inl SyntaxError) \<and>
   (scan lib data = Some v \<and> v \<noteq> JNull \<and> (\<forall>kvs. v \<noteq> JObject kvs) \<longrightarrow>
      UnmarshalEvent lib data = Inl (UnmarshalTypeError (kind_of v) ''events.Event'')) \<and>
   (scan lib data = Some (JObject kvs) \<and> (key, x) \<in> set kvs \<and> field_of lib key = Some f \<and>
    mistyped lib f x \<longrightarrow>
      (\<exists>err. UnmarshalEvent lib data = Inl err)) \<and>
   (json_Unmarshal lib data (zero_Event lib) = (Some err, event) \<longrightarrow>
      UnmarshalEvent lib data = Inl err) \<and>
   (scan lib data = Some (JObject kvs) \<and> (\<forall>kv \<in> set kvs. field_of lib (fst kv) = None) \<longrightarrow>
      UnmarshalEvent lib data = Inr (zero_Event lib))"
proof (intro conjI impI)
  assume "scan lib data = None"
  then show "UnmarshalEvent lib data = Inl SyntaxError"
    by (simp add: UnmarshalEvent_def json_Unmarshal_def)
next
  assume "scan lib data = Some v \<and> v \<noteq> JNull \<and> (\<forall>kvs. v \<noteq> JObject kvs)"
  then show "UnmarshalEvent lib data = Inl (UnmarshalTypeError (kind_of v) ''events.Event'')"
    by (cases v) (simp_all add: UnmarshalEvent_def json_Unmarshal_def)
next
  assume a: "scan lib data = Some (JObject kvs) \<and> (key, x) \<in> set kvs \<and>
    field_of lib key = Some f \<and> mistyped lib f x"
  then have "failed (decode_object lib kvs
      \<lparr>stopped = None, saved = None, target = zero_Event lib\<rparr>)"
    using decode_object_mistyped[of key x kvs lib f] by simp
  then have "fst (json_Unmarshal lib data (zero_Event lib)) \<noteq> None"
    using a json_Unmarshal_failed[of lib data kvs] by simp
  then show "\<exists>err. UnmarshalEvent lib data = Inl err"
    by (rule UnmarshalEvent_Inl)
next
  assume "json_Unmarshal lib data (zero_Event lib) = (Some err, event)"
  then show "UnmarshalEvent lib data = Inl err"
    by (simp add: UnmarshalEvent_def)
next
  assume a: "scan lib data = Some (JObject kvs) \<and> (\<forall>kv \<in> set kvs. field_of lib (fst kv) = None)"
  then have "decode_object lib kvs \<lparr>stopped = None, saved = None, target = zero_Event lib\<rparr> =
      \<lparr>stopped = None, saved = None, target = zero_Event lib\<rparr>"
    using decode_object_unknown_keys[of kvs lib] by simp
  then show "UnmarshalEvent lib data = Inr (zero_Event lib)"
    using a by (simp add: UnmarshalEvent_def json_Unmarshal_def)
qed

lemma toy_field_of:
  "field_of toy_lib ''id'' = Some Field_ID"
  "field_of toy_lib ''type'' = Some Field_Type"
  "field_of toy_lib ''timestamp'' = Some Field_Timestamp"
  "field_of toy_lib ''data'' = Some Field_Data"
  by (simp_all add: field_of_def Event_fields_def)

text \<open>
  C6 at work: a truncated envelope, an array, an envelope with a number for its type
  (the decoder had stored the id already; it is not returned), and an object with a key
  that is no envelope field.
\<close>
theorem UnmarshalEvent_decode_errors_witness:
  \<open>scan toy_lib ''{"id":"e1"'' = None \<and>
   UnmarshalEvent toy_lib ''{"id":"e1"'' = Inl SyntaxError \<and>
   scan toy_lib ''[]'' = Some (JArray []) \<and>
   UnmarshalEvent toy_lib ''[]'' = Inl (UnmarshalTypeError ''array'' ''events.Event'') \<and>
   scan toy_lib ''{"id":"e1","type":5}'' =
     Some (JObject [(''id'', JString ''e1''), (''type'', JNumber ''5'')]) \<and>
   field_of toy_lib ''type'' = Some Field_Type \<and> mistyped toy_lib Field_Type (JNumber ''5'') \<and>
   json_Unmarshal toy_lib ''{"id":"e1","type":5}'' (zero_Event toy_lib) =
     (Some (UnmarshalTypeError ''number'' ''Event.type of type events.EventType''),
      (zero_Event toy_lib)\<lparr>ID := ''e1''\<rparr>) \<and>
   UnmarshalEvent toy_lib ''{"id":"e1","type":5}'' =
     Inl (UnmarshalTypeError ''number'' ''Event.type of type events.EventType'') \<and>
   scan toy_lib ''{"note":"x"}'' = Some (JObject [(''note'', JString ''x'')]) \<and>
   field_of toy_lib ''note'' = None \<and>
   UnmarshalEvent toy_lib ''{"note":"x"}'' = Inr (zero_Event toy_lib)\<close>
proof -
  have s1: \<open>scan toy_lib ''{"id":"e1"'' = None\<close>
    and s2: \<open>scan toy_lib ''[]'' = Some (JArray [])\<close>
    and s3: \<open>scan toy_lib ''{"id":"e1","type":5}'' =
      Some (JObject [(''id'', JString ''e1''), (''type'', JNumber ''5'')])\<close>
    and s4: \<open>scan toy_lib ''{"note":"x"}'' = Some (JObject [(''note'', JString ''x'')])\<close>
    by (simp_all add: toy_lib_def toy_scan_def)
  have u: "field_of toy_lib ''note'' = None"
    by (simp add: field_of_def Event_fields_def toy_lib_def)
  have m: "mistyped toy_lib Field_Type (JNumber ''5'')"
    by (simp add: mistyped_def)
  have j: \<open>json_Unmarshal toy_lib ''{"id":"e1","type":5}'' (zero_Event toy_lib) =
     (Some (UnmarshalTypeError ''number'' ''Event.type of type events.EventType''),
      (zero_Event toy_lib)\<lparr>ID := ''e1''\<rparr>)\<close>
    by (simp add: json_Unmarshal_def s3 toy_field_of store_def save_def kind_of_def)
  have k: "kind_of (JArray []) = ''array''"
    by (simp add: kind_of_def)
  note a = UnmarshalEvent_decode_errors[of toy_lib \<open>''{"id":"e1"''\<close>]
  note b = UnmarshalEvent_decode_errors[of toy_lib \<open>''[]''\<close> "JArray []"]
  note c = UnmarshalEvent_decode_errors[of toy_lib \<open>''{"id":"e1","type":5}''\<close> JNull
      "[(''id'', JString ''e1''), (''type'', JNumber ''5'')]" "''type''" "JNumber ''5''" Field_Type
      "UnmarshalTypeError ''number'' ''Event.type of type events.EventType''"
      "(zero_Event toy_lib)\<lparr>ID := ''e1''\<rparr>"]
  note d = UnmarshalEvent_decode_errors[of toy_lib \<open>''{"note":"x"}''\<close> JNull
      "[(''note'', JString ''x'')]"]
  have r1: \<open>UnmarshalEvent toy_lib ''{"id":"e1"'' = Inl SyntaxError\<close>
    using a s1 by simp
  have r2: \<open>UnmarshalEvent toy_lib ''[]'' = Inl (UnmarshalTypeError ''array'' ''events.Event'')\<close>
    using b s2 k by simp
  have r3: \<open>UnmarshalEvent toy_lib ''{"id":"e1","type":5}'' =
     Inl (UnmarshalTypeError ''number'' ''Event.type of type events.EventType'')\<close>
    using c j by simp
  have r4: \<open>UnmarshalEvent toy_lib ''{"note":"x"}'' = Inr (zero_Event toy_lib)\<close>
    using d s4 u by simp
  show ?thesis
    using s1 s2 s3 s4 m j r1 r2 r3 r4 u toy_field_of(2) by simp
qed

text \<open>
  C6 as the specification words it fails: \<open>{}\<close> and an object with an id only are no
  encoded envelopes, and \<open>UnmarshalEvent\<close> returns an event for each, with zero values
  for what is missing.
\<close>
theorem UnmarshalEvent_decode_errors_counterexample:
  \<open>UnmarshalEvent toy_lib ''{}'' =
     Inr \<lparr>ID = [], Type = [], Timestamp = ''0001-01-01T00:00:00Z'', Data = AnyNil\<rparr> \<and>
   UnmarshalEvent toy_lib ''{"id":"e1"}'' =
     Inr \<lparr>ID = ''e1'', Type = [], Timestamp = ''0001-01-01T00:00:00Z'', Data = AnyNil\<rparr>\<close>
proof -
  have s: \<open>scan toy_lib ''{}'' = Some (JObject [])\<close>
    \<open>scan toy_lib ''{"id":"e1"}'' = Some (JObject [(''id'', JString ''e1'')])\<close>
    by (simp_all add: toy_lib_def toy_scan_def)
  have z: "zero_Event toy_lib =
      \<lparr>ID = [], Type = [], Timestamp = ''0001-01-01T00:00:00Z'', Data = AnyNil\<rparr>"
    by (simp add: zero_Event_def toy_lib_def)
  show ?thesis
    by (simp add: UnmarshalEvent_def json_Unmarshal_def s toy_field_of store_def z)
qed

text \<open>
  The bytes of an envelope whose numbers are all float64 decode to the id, the type, the
  time and the payload as a generic value.
\<close>

lemma UnmarshalEvent_envelope:
  assumes "scan lib data =
             Some (JObject [(''id'', JString i), (''type'', JString t),
                            (''timestamp'', JString ts), (''data'', d)])"
    and "ParseTime lib ts = Some time"
    and "numbers_fit (ParseFloat lib) d"
  shows "UnmarshalEvent lib data =
           Inr \<lparr>ID = i, Type = t, Timestamp = time, Data = snd (generic (ParseFloat lib) d)\<rparr>"
proof -
  have f: "field_of lib ''id'' = Some Field_ID" "field_of lib ''type'' = Some Field_Type"
    "field_of lib ''timestamp'' = Some Field_Timestamp" "field_of lib ''data'' = Some Field_Data"
    by (simp_all add: field_of_def Event_fields_def)
  have g: "fst (generic (ParseFloat lib) d) = None"
    using assms(3) by (simp add: generic_ok)
  have "store lib Field_Data d \<lparr>stopped = None, saved = None, target = e\<rparr> =
          \<lparr>stopped = None, saved = None, target = e\<lparr>Data := snd (generic (ParseFloat lib) d)\<rparr>\<rparr>"
    for e :: "('a, 'b any) Event"
    using g by (cases d; cases "generic (ParseFloat lib) d")
      (auto simp: store_def split: option.splits)
  then show ?thesis
    using assms(1,2)
    by (simp add: UnmarshalEvent_def json_Unmarshal_def f store_def zero_Event_def)
qed

text \<open>
  Claim C7, as the code has it. On the bytes of an envelope (the four keys as \<open>Marshal\<close>
  writes them, a timestamp that reads as a time) whose numbers are all float64,
  \<open>UnmarshalEvent\<close> succeeds whatever JSON value the payload is and whatever string the
  type is, and returns the id, the type, the time and the payload as a generic value.
  With a number that is no float64 anywhere in the payload it fails.
\<close>
theorem UnmarshalEvent_any_payload:
  assumes "scan lib data =
             Some (JObject [(''id'', JString i), (''type'', JString t),
                            (''timestamp'', JString ts), (''data'', d)])"
    and "ParseTime lib ts = Some time"
  shows "(numbers_fit (ParseFloat lib) d \<longrightarrow>
            UnmarshalEvent lib data =
              Inr \<lparr>ID = i, Type = t, Timestamp = time,
                   Data = snd (generic (ParseFloat lib) d)\<rparr>) \<and>
         (\<not> numbers_fit (ParseFloat lib) d \<longrightarrow> (\<exists>err. UnmarshalEvent lib data = Inl err))"
proof (intro conjI impI)
  assume "numbers_fit (ParseFloat lib) d"
  with assms show "UnmarshalEvent lib data =
      Inr \<lparr>ID = i, Type = t, Timestamp = time, Data = snd (generic (ParseFloat lib) d)\<rparr>"
    by (rule UnmarshalEvent_envelope)
next
  assume "\<not> numbers_fit (ParseFloat lib) d"
  then have m: "mistyped lib Field_Data d"
    by (simp add: mistyped_def)
  have f: "field_of lib ''data'' = Some Field_Data"
    by (simp add: field_of_def Event_fields_def)
  have "(''data'', d) \<in> set [(''id'', JString i), (''type'', JString t),
                            (''timestamp'', JString ts), (''data'', d)]"
    by simp
  then have "failed (decode_object lib
      [(''id'', JString i), (''type'', JString t), (''timestamp'', JString ts), (''data'', d)]
      \<lparr>stopped = None, saved = None, target = zero_Event lib\<rparr>)"
    using f m by (rule decode_object_mistyped)
  then have "fst (json_Unmarshal lib data (zero_Event lib)) \<noteq> None"
    using assms(1) by (rule json_Unmarshal_failed[rotated])
  then show "\<exists>err. UnmarshalEvent lib data = Inl err"
    by (rule UnmarshalEvent_Inl)
qed

text \<open>
  C7 at work: a type that is no known event type and an array for a payload are
  accepted; a payload with the number 1e999 is refused.
\<close>
theorem UnmarshalEvent_any_payload_witness:
  \<open>scan toy_lib
     ''{"id":"e1","type":"order.shipped","timestamp":"2024-05-01T10:00:00Z","data":[1,"x"]}'' =
     Some (JObject [(''id'', JString ''e1''), (''type'', JString ''order.shipped''),
                    (''timestamp'', JString ''2024-05-01T10:00:00Z''),
                    (''data'', JArray [JNumber ''1'', JString ''x''])]) \<and>
   ParseTime toy_lib ''2024-05-01T10:00:00Z'' = Some ''2024-05-01T10:00:00Z'' \<and>
   numbers_fit (ParseFloat toy_lib) (JArray [JNumber ''1'', JString ''x'']) \<and>
   UnmarshalEvent toy_lib
     ''{"id":"e1","type":"order.shipped","timestamp":"2024-05-01T10:00:00Z","data":[1,"x"]}'' =
     Inr \<lparr>ID = ''e1'', Type = ''order.shipped'', Timestamp = ''2024-05-01T10:00:00Z'',
          Data = AnySlice [AnyFloat64 ''1'', AnyString ''x'']\<rparr> \<and>
   scan toy_lib
     ''{"id":"e2","type":"order.created","timestamp":"2024-05-01T10:00:00Z","data":{"order":{"total_price":1e999}}}'' =
     Some (JObject [(''id'', JString ''e2''), (''type'', JString ''order.created''),
                    (''timestamp'', JString ''2024-05-01T10:00:00Z''),
                    (''data'', JObject [(''order'', JObject [(''total_price'', JNumber ''1e999'')])])]) \<and>
   \<not> numbers_fit (ParseFloat toy_lib)
       (JObject [(''order'', JObject [(''total_price'', JNumber ''1e999'')])]) \<and>
   (\<exists>err. UnmarshalEvent toy_lib
     ''{"id":"e2","type":"order.created","timestamp":"2024-05-01T10:00:00Z","data":{"order":{"total_price":1e999}}}'' =
     Inl err)\<close>
proof -
  have s: \<open>scan toy_lib
     ''{"id":"e1","type":"order.shipped","timestamp":"2024-05-01T10:00:00Z","data":[1,"x"]}'' =
     Some (JObject [(''id'', JString ''e1''), (''type'', JString ''order.shipped''),
                    (''timestamp'', JString ''2024-05-01T10:00:00Z''),
                    (''data'', JArray [JNumber ''1'', JString ''x''])])\<close>
    by (simp add: toy_lib_def toy_scan_def)
  have s': \<open>scan toy_lib
     ''{"id":"e2","type":"order.created","timestamp":"2024-05-01T10:00:00Z","data":{"order":{"total_price":1e999}}}'' =
     Some (JObject [(''id'', JString ''e2''), (''type'', JString ''order.created''),
                    (''timestamp'', JString ''2024-05-01T10:00:00Z''),
                    (''data'', JObject [(''order'', JObject [(''total_price'', JNumber ''1e999'')])])])\<close>
    by (simp add: toy_lib_def toy_scan_def)
  have p: "ParseTime toy_lib ''2024-05-01T10:00:00Z'' = Some ''2024-05-01T10:00:00Z''"
    by (simp add: toy_lib_def)
  have n: "numbers_fit (ParseFloat toy_lib) (JArray [JNumber ''1'', JString ''x''])"
    by (simp add: toy_lib_def)
  have n': "\<not> numbers_fit (ParseFloat toy_lib)
       (JObject [(''order'', JObject [(''total_price'', JNumber ''1e999'')])])"
    by (simp add: toy_lib_def)
  have g: "snd (generic (ParseFloat toy_lib) (JArray [JNumber ''1'', JString ''x''])) =
      AnySlice [AnyFloat64 ''1'', AnyString ''x'']"
    by (simp add: toy_lib_def)
  show ?thesis
    using UnmarshalEvent_any_payload[OF s p] UnmarshalEvent_any_payload[OF s' p] s s' p n n' g
    by simp
qed

text \<open>
  C7 as the specification words it fails: an encoded envelope of a known type, with a
  payload of the shape of an order whose total price is the number 1e999, is refused by
  the outer decode.
\<close>
theorem UnmarshalEvent_any_payload_counterexample:
  \<open>UnmarshalEvent toy_lib
     ''{"id":"e2","type":"order.created","timestamp":"2024-05-01T10:00:00Z","data":{"order":{"total_price":1e999}}}'' =
     Inl (UnmarshalTypeError ''number 1e999'' ''float64'')\<close>
proof -
  have s: \<open>scan toy_lib
     ''{"id":"e2","type":"order.created","timestamp":"2024-05-01T10:00:00Z","data":{"order":{"total_price":1e999}}}'' =
     Some (JObject [(''id'', JString ''e2''), (''type'', JString ''order.created''),
                    (''timestamp'', JString ''2024-05-01T10:00:00Z''),
                    (''data'', JObject [(''order'', JObject [(''total_price'', JNumber ''1e999'')])])])\<close>
    by (simp add: toy_lib_def toy_scan_def)
  have g: "ParseFloat toy_lib ''1e999'' = None"
    by (simp add: toy_lib_def)
  have p: "ParseTime toy_lib ''2024-05-01T10:00:00Z'' = Some ''2024-05-01T10:00:00Z''"
    by (simp add: toy_lib_def)
  show ?thesis
    by (simp add: UnmarshalEvent_def json_Unmarshal_def s toy_field_of store_def save_def g p)
qed

section \<open>The round trip of an event\<close>

lemma float_survivesD:
  assumes "float_survives lib tx x"
  shows "FormatFloat tx x = Some (float_text tx x)" and "ParseFloat lib (float_text tx x) = Some x"
  using assms by (auto simp: float_survives_def float_text_def split: option.splits)

lemma time_survivesD:
  assumes "time_survives lib tx t"
  shows "FormatTime tx t = Some (time_text tx t)" and "ParseTime lib (time_text tx t) = Some t"
  using assms by (auto simp: time_survives_def time_text_def split: option.splits)

lemma int_survivesD:
  assumes "int_survives lib tx q"
  obtains x where "ParseFloat lib (FormatInt tx q) = Some x"
    and "FormatFloat tx x = Some (int_text lib tx q)"
    and "ParseInt tx (int_text lib tx q) = Some q"
  using assms
  by (auto simp: int_survives_def int_text_def float_text_def split: option.splits)

subsection \<open>An order item and a reservation\<close>

lemma encode_item:
  "float_survives lib tx (Price item) \<Longrightarrow> encode_OrderItem tx item = Some (item_json tx item)"
  by (simp add: encode_OrderItem_def item_json_def float_survivesD)

lemma item_again:
  assumes "item_survives lib tx item"
  shows "fst (generic (ParseFloat lib) (item_json tx item)) = None"
    and "marshal_any tx (snd (generic (ParseFloat lib) (item_json tx item))) =
           Some (item_json_again lib tx item)"
proof -
  have f: "float_survives lib tx (Price item)" and i: "int_survives lib tx (Quantity item)"
    using assms by (simp_all add: item_survives_def)
  obtain x where x: "ParseFloat lib (FormatInt tx (Quantity item)) = Some x"
    "FormatFloat tx x = Some (int_text lib tx (Quantity item))"
    using i by (rule int_survivesD)
  show "fst (generic (ParseFloat lib) (item_json tx item)) = None"
    using x float_survivesD[OF f] by (simp add: item_json_def)
  show "marshal_any tx (snd (generic (ParseFloat lib) (item_json tx item))) =
           Some (item_json_again lib tx item)"
    using x float_survivesD[OF f]
    by (simp add: item_json_def item_json_again_def sort_keys_def)
qed

lemma tag_of_OrderItem:
  "tag_of lib OrderItem_fields ''product_id'' = Some Field_ProductID"
  "tag_of lib OrderItem_fields ''quantity'' = Some Field_Quantity"
  "tag_of lib OrderItem_fields ''price'' = Some Field_Price"
  by (simp_all add: tag_of_def OrderItem_fields_def)

lemma fill_item:
  assumes "item_survives lib tx item"
  shows "fill_OrderItem lib tx (item_json_again lib tx item) \<lparr>stop = None, kept = k, struct = z\<rparr> =
           \<lparr>stop = None, kept = k, struct = item\<rparr>"
proof -
  have f: "float_survives lib tx (Price item)" and i: "int_survives lib tx (Quantity item)"
    using assms by (simp_all add: item_survives_def)
  obtain x where x: "ParseInt tx (int_text lib tx (Quantity item)) = Some (Quantity item)"
    using i by (rule int_survivesD)
  show ?thesis
    using x float_survivesD[OF f]
    by (cases k)
       (simp_all add: fill_OrderItem_def fill_struct_def item_json_again_def tag_of_OrderItem
          store_OrderItem_def put_def keep_def string_of_def int_of_json_def float_of_json_def)
qed

lemma reservation_again:
  assumes "int_survives lib tx (Reservation_Quantity r)"
  shows "fst (generic (ParseFloat lib) (encode_InventoryReservation tx r)) = None"
    and "marshal_any tx (snd (generic (ParseFloat lib) (encode_InventoryReservation tx r))) =
           Some (reservation_json_again lib tx r)"
proof -
  obtain x where x: "ParseFloat lib (FormatInt tx (Reservation_Quantity r)) = Some x"
    "FormatFloat tx x = Some (int_text lib tx (Reservation_Quantity r))"
    using assms by (rule int_survivesD)
  show "fst (generic (ParseFloat lib) (encode_InventoryReservation tx r)) = None"
    using x by (simp add: encode_InventoryReservation_def)
  show "marshal_any tx (snd (generic (ParseFloat lib) (encode_InventoryReservation tx r))) =
           Some (reservation_json_again lib tx r)"
    using x
    by (simp add: encode_InventoryReservation_def reservation_json_again_def sort_keys_def)
qed

lemma tag_of_InventoryReservation:
  "tag_of lib InventoryReservation_fields ''product_id'' = Some Field_Reservation_ProductID"
  "tag_of lib InventoryReservation_fields ''quantity'' = Some Field_Reservation_Quantity"
  by (simp_all add: tag_of_def InventoryReservation_fields_def)

lemma fill_reservation:
  assumes "int_survives lib tx (Reservation_Quantity r)"
  shows "fill_InventoryReservation lib tx (reservation_json_again lib tx r)
           \<lparr>stop = None, kept = k, struct = z\<rparr> =
         \<lparr>stop = None, kept = k, struct = r\<rparr>"
proof -
  obtain x where x: "ParseInt tx (int_text lib tx (Reservation_Quantity r)) =
      Some (Reservation_Quantity r)"
    using assms by (rule int_survivesD)
  show ?thesis
    using x
    by (cases k)
       (simp_all add: fill_InventoryReservation_def fill_struct_def reservation_json_again_def
          tag_of_InventoryReservation store_InventoryReservation_def put_def keep_def
          string_of_def int_of_json_def)
qed

subsection \<open>A slice of them\<close>

lemma generic_elems:
  assumes "list_all (\<lambda>x. fst (generic pf (enc x)) = None) xs"
  shows "generic pf (JArray (map enc xs)) =
           (None, AnySlice (map (\<lambda>x. snd (generic pf (enc x))) xs))"
proof -
  have "first_error (map (\<lambda>v. fst (generic pf v)) (map enc xs)) = None"
    using assms by (induction xs) simp_all
  then show ?thesis by (simp add: comp_def)
qed

lemma marshal_elems:
  assumes "list_all (\<lambda>x. marshal_any tx (snd (generic pf (enc x))) = Some (again x)) xs"
  shows "marshal_any tx (AnySlice (map (\<lambda>x. snd (generic pf (enc x))) xs)) =
           Some (JArray (map again xs))"
proof -
  have "those (map (marshal_any tx) (map (\<lambda>x. snd (generic pf (enc x))) xs)) =
        Some (map again xs)"
    using assms by (induction xs) simp_all
  then show ?thesis by simp
qed

lemma fill_elems_acc:
  assumes "list_all (\<lambda>x. \<forall>k z. one (again x) \<lparr>stop = None, kept = k, struct = z\<rparr> =
                                   \<lparr>stop = None, kept = k, struct = x\<rparr>) xs"
  shows "fill_elems one zero (map again xs) []
           \<lparr>stop = None, kept = k, struct = acc\<rparr> =
         \<lparr>stop = None, kept = k, struct = acc @ xs\<rparr>"
  using assms
  by (induction xs arbitrary: acc) simp_all

lemma fill_slice_elems:
  assumes "list_all (\<lambda>x. \<forall>k z. one (again x) \<lparr>stop = None, kept = k, struct = z\<rparr> =
                                   \<lparr>stop = None, kept = k, struct = x\<rparr>) xs"
  shows "fill_slice ty one zero (JArray (map again xs))
           \<lparr>stop = None, kept = k, struct = []\<rparr> =
         \<lparr>stop = None, kept = k, struct = xs\<rparr>"
  using fill_elems_acc[OF assms, of zero k "[]"] by (simp add: fill_slice_def)

lemma encode_items:
  "list_all (item_survives lib tx) items \<Longrightarrow>
   those (map (encode_OrderItem tx) items) = Some (map (item_json tx) items)"
  by (induction items) (simp_all add: encode_item[where lib = lib] item_survives_def)

lemma items_again:
  assumes "list_all (item_survives lib tx) items"
  shows "generic (ParseFloat lib) (JArray (map (item_json tx) items)) =
           (None, AnySlice (map (\<lambda>item. snd (generic (ParseFloat lib) (item_json tx item))) items))"
    and "marshal_any tx
           (AnySlice (map (\<lambda>item. snd (generic (ParseFloat lib) (item_json tx item))) items)) =
         Some (JArray (map (item_json_again lib tx) items))"
    and "fill_slice ty (fill_OrderItem lib tx) zero (JArray (map (item_json_again lib tx) items))
           \<lparr>stop = None, kept = k, struct = []\<rparr> =
         \<lparr>stop = None, kept = k, struct = items\<rparr>"
proof -
  have 1: "list_all (\<lambda>x. fst (generic (ParseFloat lib) (item_json tx x)) = None) items"
    using assms by (simp add: list_all_iff item_again)
  have 2: "list_all (\<lambda>x. marshal_any tx (snd (generic (ParseFloat lib) (item_json tx x))) =
      Some (item_json_again lib tx x)) items"
    using assms by (simp add: list_all_iff item_again)
  have 3: "list_all (\<lambda>x. \<forall>k z. fill_OrderItem lib tx (item_json_again lib tx x)
      \<lparr>stop = None, kept = k, struct = z\<rparr> = \<lparr>stop = None, kept = k, struct = x\<rparr>) items"
    using assms by (simp add: list_all_iff fill_item)
  show "generic (ParseFloat lib) (JArray (map (item_json tx) items)) =
           (None, AnySlice (map (\<lambda>item. snd (generic (ParseFloat lib) (item_json tx item))) items))"
    using 1 by (rule generic_elems)
  show "marshal_any tx
           (AnySlice (map (\<lambda>item. snd (generic (ParseFloat lib) (item_json tx item))) items)) =
         Some (JArray (map (item_json_again lib tx) items))"
    using 2 by (rule marshal_elems)
  show "fill_slice ty (fill_OrderItem lib tx) zero (JArray (map (item_json_again lib tx) items))
           \<lparr>stop = None, kept = k, struct = []\<rparr> =
         \<lparr>stop = None, kept = k, struct = items\<rparr>"
    using 3 by (rule fill_slice_elems)
qed

lemma reservations_again:
  assumes "list_all (\<lambda>r. int_survives lib tx (Reservation_Quantity r)) rs"
  shows "generic (ParseFloat lib) (JArray (map (encode_InventoryReservation tx) rs)) =
           (None, AnySlice (map (\<lambda>r. snd (generic (ParseFloat lib)
                                             (encode_InventoryReservation tx r))) rs))"
    and "marshal_any tx
           (AnySlice (map (\<lambda>r. snd (generic (ParseFloat lib)
                                       (encode_InventoryReservation tx r))) rs)) =
         Some (JArray (map (reservation_json_again lib tx) rs))"
    and "fill_slice ty (fill_InventoryReservation lib tx) zero
           (JArray (map (reservation_json_again lib tx) rs))
           \<lparr>stop = None, kept = k, struct = []\<rparr> =
         \<lparr>stop = None, kept = k, struct = rs\<rparr>"
proof -
  have 1: "list_all (\<lambda>x. fst (generic (ParseFloat lib) (encode_InventoryReservation tx x)) = None) rs"
    using assms by (simp add: list_all_iff reservation_again)
  have 2: "list_all (\<lambda>x. marshal_any tx (snd (generic (ParseFloat lib)
      (encode_InventoryReservation tx x))) = Some (reservation_json_again lib tx x)) rs"
    using assms by (simp add: list_all_iff reservation_again)
  have 3: "list_all (\<lambda>x. \<forall>k z. fill_InventoryReservation lib tx (reservation_json_again lib tx x)
      \<lparr>stop = None, kept = k, struct = z\<rparr> = \<lparr>stop = None, kept = k, struct = x\<rparr>) rs"
    using assms by (simp add: list_all_iff fill_reservation)
  show "generic (ParseFloat lib) (JArray (map (encode_InventoryReservation tx) rs)) =
           (None, AnySlice (map (\<lambda>r. snd (generic (ParseFloat lib)
                                             (encode_InventoryReservation tx r))) rs))"
    using 1 by (rule generic_elems)
  show "marshal_any tx
           (AnySlice (map (\<lambda>r. snd (generic (ParseFloat lib)
                                       (encode_InventoryReservation tx r))) rs)) =
         Some (JArray (map (reservation_json_again lib tx) rs))"
    using 2 by (rule marshal_elems)
  show "fill_slice ty (fill_InventoryReservation lib tx) zero
           (JArray (map (reservation_json_again lib tx) rs))
           \<lparr>stop = None, kept = k, struct = []\<rparr> =
         \<lparr>stop = None, kept = k, struct = rs\<rparr>"
    using 3 by (rule fill_slice_elems)
qed

subsection \<open>An order\<close>

lemma encode_order:
  assumes "order_survives lib tx this"
  shows "encode_Order tx this = Some (order_json tx this)"
proof -
  have items: "list_all (item_survives lib tx) (Items this)"
    and f: "float_survives lib tx (TotalPrice this)"
    and c: "time_survives lib tx (CreatedAt this)"
    and u: "time_survives lib tx (UpdatedAt this)"
    using assms by (simp_all add: order_survives_def)
  show ?thesis
    using float_survivesD[OF f] time_survivesD[OF c] time_survivesD[OF u]
    by (simp add: encode_Order_def order_json_def encode_items[OF items])
qed

lemma order_again:
  assumes "order_survives lib tx this"
  shows "fst (generic (ParseFloat lib) (order_json tx this)) = None"
    and "marshal_any tx (snd (generic (ParseFloat lib) (order_json tx this))) =
           Some (order_json_again lib tx this)"
proof -
  have items: "list_all (item_survives lib tx) (Items this)"
    and f: "float_survives lib tx (TotalPrice this)"
    using assms by (simp_all add: order_survives_def)
  show "fst (generic (ParseFloat lib) (order_json tx this)) = None"
    using float_survivesD[OF f]
    by (simp add: order_json_def items_again(1)[OF items] del: generic.simps(5))
  show "marshal_any tx (snd (generic (ParseFloat lib) (order_json tx this))) =
           Some (order_json_again lib tx this)"
    using float_survivesD[OF f]
    by (simp add: order_json_def order_json_again_def items_again(1)[OF items]
          items_again(2)[OF items] sort_keys_def
        del: generic.simps(5) marshal_any.simps(5))
qed

lemma tag_of_Order:
  "tag_of lib Order_fields ''id'' = Some Field_Order_ID"
  "tag_of lib Order_fields ''customer_id'' = Some Field_CustomerID"
  "tag_of lib Order_fields ''items'' = Some Field_Items"
  "tag_of lib Order_fields ''total_price'' = Some Field_TotalPrice"
  "tag_of lib Order_fields ''status'' = Some Field_Status"
  "tag_of lib Order_fields ''created_at'' = Some Field_CreatedAt"
  "tag_of lib Order_fields ''updated_at'' = Some Field_UpdatedAt"
  by (simp_all add: tag_of_def Order_fields_def)

lemma fill_order:
  assumes "order_survives lib tx this"
  shows "fill_struct ty (tag_of lib Order_fields) (store_Order lib tx)
           (order_json_again lib tx this) \<lparr>stop = None, kept = None, struct = zero_Order lib\<rparr> =
         \<lparr>stop = None, kept = None, struct = this\<rparr>"
proof -
  have items: "list_all (item_survives lib tx) (Items this)"
    and f: "float_survives lib tx (TotalPrice this)"
    and c: "time_survives lib tx (CreatedAt this)"
    and u: "time_survives lib tx (UpdatedAt this)"
    using assms by (simp_all add: order_survives_def)
  show ?thesis
    using float_survivesD[OF f] time_survivesD[OF c] time_survivesD[OF u]
    by (simp add: fill_struct_def order_json_again_def tag_of_Order store_Order_def put_def
        put_time_def keep_def within_def string_of_def float_of_json_def time_of_json_def
        zero_Order_def items_again(3)[OF items] Let_def)
qed

subsection \<open>The payloads\<close>

lemma tag_of_OrderCreatedEvent:
  "tag_of lib OrderCreatedEvent_fields ''order'' = Some Field_Order"
  by (simp add: tag_of_def OrderCreatedEvent_fields_def)

lemma tag_of_InventoryReservedEvent:
  "tag_of lib InventoryReservedEvent_fields ''order_id'' = Some Field_OrderID"
  "tag_of lib InventoryReservedEvent_fields ''items'' = Some Field_Reserved_Items"
  "tag_of lib InventoryReservedEvent_fields ''reserved_at'' = Some Field_ReservedAt"
  by (simp_all add: tag_of_def InventoryReservedEvent_fields_def)

lemma created_again:
  assumes "order_survives lib tx (Order created)"
  shows "encode_payload tx (OrderCreated created) = Some (payload_json tx (OrderCreated created))"
    and "fst (generic (ParseFloat lib) (payload_json tx (OrderCreated created))) = None"
    and "marshal_any tx (snd (generic (ParseFloat lib) (payload_json tx (OrderCreated created)))) =
           Some (payload_json_again lib tx (OrderCreated created))"
    and "fill_OrderCreatedEvent lib tx (payload_json_again lib tx (OrderCreated created))
           \<lparr>stop = None, kept = None, struct = zero_OrderCreatedEvent lib\<rparr> =
         \<lparr>stop = None, kept = None, struct = created\<rparr>"
proof -
  show "encode_payload tx (OrderCreated created) = Some (payload_json tx (OrderCreated created))"
    by (simp add: encode_payload_def encode_OrderCreatedEvent_def payload_json_def
        encode_order[OF assms])
  show "fst (generic (ParseFloat lib) (payload_json tx (OrderCreated created))) = None"
    using order_again(1)[OF assms] by (simp add: payload_json_def)
  show "marshal_any tx (snd (generic (ParseFloat lib) (payload_json tx (OrderCreated created)))) =
           Some (payload_json_again lib tx (OrderCreated created))"
    using order_again(2)[OF assms]
    by (simp add: payload_json_def payload_json_again_def sort_keys_def)
  show "fill_OrderCreatedEvent lib tx (payload_json_again lib tx (OrderCreated created))
           \<lparr>stop = None, kept = None, struct = zero_OrderCreatedEvent lib\<rparr> =
         \<lparr>stop = None, kept = None, struct = created\<rparr>"
    by (simp add: fill_OrderCreatedEvent_def
        fill_struct_def[where ty = "''events.OrderCreatedEvent''"]
        payload_json_again_def tag_of_OrderCreatedEvent
        store_OrderCreatedEvent_def within_def zero_OrderCreatedEvent_def fill_order[OF assms]
        Let_def)
qed

lemma reserved_again:
  assumes rs: "list_all (\<lambda>r. int_survives lib tx (Reservation_Quantity r)) (Reserved_Items reserved)"
    and t: "time_survives lib tx (ReservedAt reserved)"
  shows "encode_payload tx (InventoryReserved reserved) =
           Some (payload_json tx (InventoryReserved reserved))"
    and "fst (generic (ParseFloat lib) (payload_json tx (InventoryReserved reserved))) = None"
    and "marshal_any tx
           (snd (generic (ParseFloat lib) (payload_json tx (InventoryReserved reserved)))) =
           Some (payload_json_again lib tx (InventoryReserved reserved))"
    and "fill_InventoryReservedEvent lib tx
           (payload_json_again lib tx (InventoryReserved reserved))
           \<lparr>stop = None, kept = None, struct = zero_InventoryReservedEvent lib\<rparr> =
         \<lparr>stop = None, kept = None, struct = reserved\<rparr>"
proof -
  show "encode_payload tx (InventoryReserved reserved) =
           Some (payload_json tx (InventoryReserved reserved))"
    using time_survivesD[OF t]
    by (simp add: encode_payload_def encode_InventoryReservedEvent_def payload_json_def
        reserved_json_def)
  show "fst (generic (ParseFloat lib) (payload_json tx (InventoryReserved reserved))) = None"
    by (simp add: payload_json_def reserved_json_def reservations_again(1)[OF rs]
        del: generic.simps(5))
  show "marshal_any tx
           (snd (generic (ParseFloat lib) (payload_json tx (InventoryReserved reserved)))) =
           Some (payload_json_again lib tx (InventoryReserved reserved))"
    by (simp add: payload_json_def payload_json_again_def reserved_json_def
        reserved_json_again_def reservations_again(1)[OF rs] reservations_again(2)[OF rs]
        sort_keys_def
        del: generic.simps(5) marshal_any.simps(5))
  show "fill_InventoryReservedEvent lib tx
           (payload_json_again lib tx (InventoryReserved reserved))
           \<lparr>stop = None, kept = None, struct = zero_InventoryReservedEvent lib\<rparr> =
         \<lparr>stop = None, kept = None, struct = reserved\<rparr>"
    using time_survivesD[OF t]
    by (simp add: fill_InventoryReservedEvent_def fill_struct_def payload_json_again_def
        reserved_json_again_def tag_of_InventoryReservedEvent store_InventoryReservedEvent_def
        put_def put_time_def keep_def within_def string_of_def time_of_json_def
        zero_InventoryReservedEvent_def reservations_again(3)[OF rs] Let_def)
qed

subsection \<open>The event\<close>

lemma order_survives_of:
  assumes "valid_pair lib tx e" and "quantities_survive lib tx e" and "Data e = OrderCreated created"
  shows "order_survives lib tx (Order created)"
proof -
  have "list_all (\<lambda>item. float_survives lib tx (Price item)) (Items (Order created))"
    and "list_all (\<lambda>item. int_survives lib tx (Quantity item)) (Items (Order created))"
    using assms by (simp_all add: valid_pair_def quantities_survive_def)
  then have "list_all (item_survives lib tx) (Items (Order created))"
    by (simp add: list_all_iff item_survives_def)
  then show ?thesis using assms(1,3) by (simp add: order_survives_def valid_pair_def)
qed

text \<open>
  The first half of the way: what \<open>Marshal\<close> writes, what \<open>UnmarshalEvent\<close> returns on
  it, and what the handler writes again.
\<close>

lemma round_trip_envelope:
  assumes v: "valid_pair lib tx e"
    and enc: "encode_payload tx (Data e) = Some (payload_json tx (Data e))"
    and fit: "fst (generic (ParseFloat lib) (payload_json tx (Data e))) = None"
    and again: "marshal_any tx (snd (generic (ParseFloat lib) (payload_json tx (Data e)))) =
                  Some (payload_json_again lib tx (Data e))"
  shows "Marshal tx e = Inr (print tx (event_json tx e))"
    and "UnmarshalEvent lib (print tx (event_json tx e)) =
           Inr \<lparr>ID = ID e, Type = Type e, Timestamp = Timestamp e,
                Data = snd (generic (ParseFloat lib) (payload_json tx (Data e)))\<rparr>"
    and "scan lib (print tx (payload_json_again lib tx (Data e))) =
           Some (payload_json_again lib tx (Data e))"
proof -
  have ts: "time_survives lib tx (Timestamp e)"
    using v by (simp add: valid_pair_def)
  have enc_e: "encode_Event tx e = Some (event_json tx e)"
    using time_survivesD[OF ts] enc by (simp add: encode_Event_def event_json_def)
  show "Marshal tx e = Inr (print tx (event_json tx e))"
    by (simp add: Marshal_def enc_e)
  have rb: "scan lib (print tx (event_json tx e)) = Some (event_json tx e)"
    using v by (simp add: valid_pair_def reads_back_def enc_e)
  have "numbers_fit (ParseFloat lib) (payload_json tx (Data e))"
    using fit by (simp add: generic_ok)
  with rb time_survivesD(2)[OF ts]
  show "UnmarshalEvent lib (print tx (event_json tx e)) =
           Inr \<lparr>ID = ID e, Type = Type e, Timestamp = Timestamp e,
                Data = snd (generic (ParseFloat lib) (payload_json tx (Data e)))\<rparr>"
    unfolding event_json_def by (rule UnmarshalEvent_envelope)
  show "scan lib (print tx (payload_json_again lib tx (Data e))) =
           Some (payload_json_again lib tx (Data e))"
    using v by (simp add: valid_pair_def reads_back_def written_again_def enc again)
qed

lemma HandleOrderCreated_decode_Inr:
  assumes "UnmarshalEvent lib val = Inr event"
  shows "HandleOrderCreated_decode lib tx val = decode_OrderCreated lib tx (Data event)"
  using assms
  by (auto simp: UnmarshalEvent_def HandleOrderCreated_decode_def split: prod.splits option.splits)

lemma handleInventoryReserved_decode_Inr:
  assumes "UnmarshalEvent lib val = Inr event"
  shows "handleInventoryReserved_decode lib tx val = decode_InventoryReserved lib tx (Data event)"
  using assms
  by (auto simp: UnmarshalEvent_def handleInventoryReserved_decode_def
      split: prod.splits option.splits)

lemma round_trip_created:
  assumes v: "valid_pair lib tx e" and q: "quantities_survive lib tx e"
    and d: "Data e = OrderCreated created"
  shows "Marshal tx e = Inr (print tx (event_json tx e))"
    and "UnmarshalEvent lib (print tx (event_json tx e)) =
           Inr \<lparr>ID = ID e, Type = Type e, Timestamp = Timestamp e,
                Data = snd (generic (ParseFloat lib) (payload_json tx (Data e)))\<rparr>"
    and "decode_OrderCreated lib tx (snd (generic (ParseFloat lib) (payload_json tx (Data e)))) =
           Inr created"
    and "HandleOrderCreated_decode lib tx (print tx (event_json tx e)) = Inr created"
proof -
  have os: "order_survives lib tx (Order created)"
    using v q d by (rule order_survives_of)
  note a = created_again[OF os, folded d]
  note rt = round_trip_envelope[OF v a(1) a(2) a(3)]
  show "Marshal tx e = Inr (print tx (event_json tx e))" by (rule rt(1))
  show u: "UnmarshalEvent lib (print tx (event_json tx e)) =
           Inr \<lparr>ID = ID e, Type = Type e, Timestamp = Timestamp e,
                Data = snd (generic (ParseFloat lib) (payload_json tx (Data e)))\<rparr>"
    by (rule rt(2))
  show s: "decode_OrderCreated lib tx
             (snd (generic (ParseFloat lib) (payload_json tx (Data e)))) = Inr created"
    by (simp add: decode_OrderCreated_def a(3) json_Unmarshal_into_def rt(3) a(4))
  show "HandleOrderCreated_decode lib tx (print tx (event_json tx e)) = Inr created"
    using HandleOrderCreated_decode_Inr[OF u, of tx] s by simp
qed

lemma round_trip_reserved:
  assumes v: "valid_pair lib tx e" and q: "quantities_survive lib tx e"
    and d: "Data e = InventoryReserved reserved"
  shows "Marshal tx e = Inr (print tx (event_json tx e))"
    and "UnmarshalEvent lib (print tx (event_json tx e)) =
           Inr \<lparr>ID = ID e, Type = Type e, Timestamp = Timestamp e,
                Data = snd (generic (ParseFloat lib) (payload_json tx (Data e)))\<rparr>"
    and "decode_InventoryReserved lib tx
           (snd (generic (ParseFloat lib) (payload_json tx (Data e)))) = Inr reserved"
    and "handleInventoryReserved_decode lib tx (print tx (event_json tx e)) = Inr reserved"
proof -
  have rs: "list_all (\<lambda>r. int_survives lib tx (Reservation_Quantity r)) (Reserved_Items reserved)"
    using q d by (simp add: quantities_survive_def)
  have t: "time_survives lib tx (ReservedAt reserved)"
    using v d by (simp add: valid_pair_def)
  note a = reserved_again[OF rs t, folded d]
  note rt = round_trip_envelope[OF v a(1) a(2) a(3)]
  show "Marshal tx e = Inr (print tx (event_json tx e))" by (rule rt(1))
  show u: "UnmarshalEvent lib (print tx (event_json tx e)) =
           Inr \<lparr>ID = ID e, Type = Type e, Timestamp = Timestamp e,
                Data = snd (generic (ParseFloat lib) (payload_json tx (Data e)))\<rparr>"
    by (rule rt(2))
  show s: "decode_InventoryReserved lib tx
             (snd (generic (ParseFloat lib) (payload_json tx (Data e)))) = Inr reserved"
    by (simp add: decode_InventoryReserved_def a(3) json_Unmarshal_into_def rt(3) a(4))
  show "handleInventoryReserved_decode lib tx (print tx (event_json tx e)) = Inr reserved"
    using handleInventoryReserved_decode_Inr[OF u, of tx] s by simp
qed

text \<open>
  Claim C5, as the code has it. For every valid pair of a type and a payload of which
  every quantity survives the float64 it becomes in the \<open>interface{}\<close>: \<open>Marshal\<close> returns
  bytes; \<open>UnmarshalEvent\<close> returns an event on them, with the same type (and the same id
  and time); and the second decode of the handler, from the \<open>Data\<close> of that event as from
  the bytes, returns the payload the event was made with.
\<close>
theorem Marshal_UnmarshalEvent_round_trip:
  assumes "valid_pair lib tx e" and "quantities_survive lib tx e"
  shows "\<exists>bytes event.
           Marshal tx e = Inr bytes \<and>
           UnmarshalEvent lib bytes = Inr event \<and>
           Type event = Type e \<and> ID event = ID e \<and> Timestamp event = Timestamp e \<and>
           (case Data e of
              OrderCreated created \<Rightarrow>
                decode_OrderCreated lib tx (Data event) = Inr created \<and>
                HandleOrderCreated_decode lib tx bytes = Inr created
            | InventoryReserved reserved \<Rightarrow>
                decode_InventoryReserved lib tx (Data event) = Inr reserved \<and>
                handleInventoryReserved_decode lib tx bytes = Inr reserved)"
proof (cases "Data e")
  case (OrderCreated created)
  note rt = round_trip_created[OF assms OrderCreated]
  let ?event = "\<lparr>ID = ID e, Type = Type e, Timestamp = Timestamp e,
                 Data = snd (generic (ParseFloat lib) (payload_json tx (Data e)))\<rparr>"
  have "Marshal tx e = Inr (print tx (event_json tx e)) \<and>
      UnmarshalEvent lib (print tx (event_json tx e)) = Inr ?event \<and>
      Type ?event = Type e \<and> ID ?event = ID e \<and> Timestamp ?event = Timestamp e \<and>
      decode_OrderCreated lib tx (Data ?event) = Inr created \<and>
      HandleOrderCreated_decode lib tx (print tx (event_json tx e)) = Inr created"
    using rt by simp
  then show ?thesis
    unfolding OrderCreated payload.case by blast
next
  case (InventoryReserved reserved)
  note rt = round_trip_reserved[OF assms InventoryReserved]
  let ?event = "\<lparr>ID = ID e, Type = Type e, Timestamp = Timestamp e,
                 Data = snd (generic (ParseFloat lib) (payload_json tx (Data e)))\<rparr>"
  have "Marshal tx e = Inr (print tx (event_json tx e)) \<and>
      UnmarshalEvent lib (print tx (event_json tx e)) = Inr ?event \<and>
      Type ?event = Type e \<and> ID ?event = ID e \<and> Timestamp ?event = Timestamp e \<and>
      decode_InventoryReserved lib tx (Data ?event) = Inr reserved \<and>
      handleInventoryReserved_decode lib tx (print tx (event_json tx e)) = Inr reserved"
    using rt by simp
  then show ?thesis
    unfolding InventoryReserved payload.case by blast
qed

lemma example_created_valid: "valid_pair order_lib order_text (example_created 2)"
  by code_simp

lemma example_created_quantities: "quantities_survive order_lib order_text (example_created 2)"
  by code_simp

lemma example_created_written:
  \<open>Marshal order_text (example_created 2) =
     Inr ''{"id":"e1","type":"order.created","timestamp":"2024-05-01T10:00:00Z","data":{"order":{"id":"o1","customer_id":"c1","items":[{"product_id":"p1","quantity":2,"price":10}],"total_price":20,"status":"pending","created_at":"2024-05-01T10:00:00Z","updated_at":"2024-05-01T10:00:00Z"}}}''\<close>
  by code_simp

lemma example_reserved_valid: "valid_pair order_lib order_text (example_reserved 2)"
  by code_simp

lemma example_reserved_quantities: "quantities_survive order_lib order_text (example_reserved 2)"
  by code_simp

lemma example_reserved_written:
  \<open>Marshal order_text (example_reserved 2) =
     Inr ''{"id":"e3","type":"inventory.reserved","timestamp":"2024-05-01T10:00:00Z","data":{"order_id":"o1","items":[{"product_id":"p1","quantity":2}],"reserved_at":"2024-05-01T10:00:00Z"}}''\<close>
  by code_simp

text \<open>
  C5 at work: an \<open>order.created\<close> event for two pieces of one product and the
  \<open>inventory.reserved\<close> event for them come back as they were made.
\<close>
theorem Marshal_UnmarshalEvent_round_trip_witness:
  \<open>valid_pair order_lib order_text (example_created 2) \<and>
   quantities_survive order_lib order_text (example_created 2) \<and>
   Marshal order_text (example_created 2) =
     Inr ''{"id":"e1","type":"order.created","timestamp":"2024-05-01T10:00:00Z","data":{"order":{"id":"o1","customer_id":"c1","items":[{"product_id":"p1","quantity":2,"price":10}],"total_price":20,"status":"pending","created_at":"2024-05-01T10:00:00Z","updated_at":"2024-05-01T10:00:00Z"}}}'' \<and>
   (\<exists>event.
      UnmarshalEvent order_lib
        ''{"id":"e1","type":"order.created","timestamp":"2024-05-01T10:00:00Z","data":{"order":{"id":"o1","customer_id":"c1","items":[{"product_id":"p1","quantity":2,"price":10}],"total_price":20,"status":"pending","created_at":"2024-05-01T10:00:00Z","updated_at":"2024-05-01T10:00:00Z"}}}'' = Inr event \<and>
      Type event = ''order.created'' \<and>
      decode_OrderCreated order_lib order_text (Data event) = Inr \<lparr>Order = example_order 2\<rparr>) \<and>
   HandleOrderCreated_decode order_lib order_text
     ''{"id":"e1","type":"order.created","timestamp":"2024-05-01T10:00:00Z","data":{"order":{"id":"o1","customer_id":"c1","items":[{"product_id":"p1","quantity":2,"price":10}],"total_price":20,"status":"pending","created_at":"2024-05-01T10:00:00Z","updated_at":"2024-05-01T10:00:00Z"}}}'' =
     Inr \<lparr>Order = example_order 2\<rparr> \<and>
   valid_pair order_lib order_text (example_reserved 2) \<and>
   quantities_survive order_lib order_text (example_reserved 2) \<and>
   Marshal order_text (example_reserved 2) =
     Inr ''{"id":"e3","type":"inventory.reserved","timestamp":"2024-05-01T10:00:00Z","data":{"order_id":"o1","items":[{"product_id":"p1","quantity":2}],"reserved_at":"2024-05-01T10:00:00Z"}}'' \<and>
   (\<exists>event.
      UnmarshalEvent order_lib
        ''{"id":"e3","type":"inventory.reserved","timestamp":"2024-05-01T10:00:00Z","data":{"order_id":"o1","items":[{"product_id":"p1","quantity":2}],"reserved_at":"2024-05-01T10:00:00Z"}}'' = Inr event \<and>
      Type event = ''inventory.reserved'' \<and>
      decode_InventoryReserved order_lib order_text (Data event) = Inr (example_reservation 2)) \<and>
   handleInventoryReserved_decode order_lib order_text
     ''{"id":"e3","type":"inventory.reserved","timestamp":"2024-05-01T10:00:00Z","data":{"order_id":"o1","items":[{"product_id":"p1","quantity":2}],"reserved_at":"2024-05-01T10:00:00Z"}}'' =
     Inr (example_reservation 2)\<close>
  using Marshal_UnmarshalEvent_round_trip[OF example_created_valid example_created_quantities]
    Marshal_UnmarshalEvent_round_trip[OF example_reserved_valid example_reserved_quantities]
    example_created_valid example_created_quantities example_created_written
    example_reserved_valid example_reserved_quantities example_reserved_written
  by (auto simp: example_created_def example_reserved_def)

text \<open>
  C5 as the specification words it fails: an \<open>order.created\<close> event for 9007199254740993
  pieces is a valid pair, and the handler's decode of its bytes returns an order for
  9007199254740992 pieces.
\<close>
theorem Marshal_UnmarshalEvent_round_trip_counterexample:
  \<open>valid_pair order_lib order_text (example_created 9007199254740993) \<and>
   Marshal order_text (example_created 9007199254740993) =
     Inr ''{"id":"e1","type":"order.created","timestamp":"2024-05-01T10:00:00Z","data":{"order":{"id":"o1","customer_id":"c1","items":[{"product_id":"p1","quantity":9007199254740993,"price":10}],"total_price":20,"status":"pending","created_at":"2024-05-01T10:00:00Z","updated_at":"2024-05-01T10:00:00Z"}}}'' \<and>
   HandleOrderCreated_decode order_lib order_text
     ''{"id":"e1","type":"order.created","timestamp":"2024-05-01T10:00:00Z","data":{"order":{"id":"o1","customer_id":"c1","items":[{"product_id":"p1","quantity":9007199254740993,"price":10}],"total_price":20,"status":"pending","created_at":"2024-05-01T10:00:00Z","updated_at":"2024-05-01T10:00:00Z"}}}'' =
     Inr \<lparr>Order = example_order 9007199254740992\<rparr> \<and>
   example_order 9007199254740992 \<noteq> example_order 9007199254740993 \<and>
   \<not> quantities_survive order_lib order_text (example_created 9007199254740993)\<close>
  by code_simp

end
